theory Spec2Isabelle
  imports Complex_Main "HOL-Library.Multiset" "HOL-Library.AList" "HOL-Library.Log_Nat"
begin

section \<open>The Quantum Inspire backend for Qiskit: data model\<close>

text \<open>
  The development embeds \<^verbatim>\<open>src/quantuminspire/qiskit/backend_qx.py\<close>
  (class \<^verbatim>\<open>QuantumInspireBackend\<close>). Python exceptions are values of
  \<open>error\<close>; a function that can raise returns \<open>error + 'a\<close> with
  \<open>Inl\<close> for the exception. A record field stands for an attribute or a
  dictionary entry that is present and has the type given; what Python does with a
  missing attribute or a value of another type is outside the model.
\<close>

datatype error =
    QisKitBackendError string
  | IndexError
  | ValueError
  | KeyError
  | AttributeError string

text \<open>
  A \<^verbatim>\<open>QobjInstruction\<close> with the attributes the backend reads: its name, the
  qubits it acts on, the classical bits a measurement writes, and the register index of
  a classical condition when it carries one.
\<close>

record instruction =
  name :: string
  qubits :: "int list"
  memory :: "int list"
  conditional :: "int option"

record qobj_header =
  header_name :: string
  n_qubits :: int
  memory_slots :: int
  creg_sizes :: "(string \<times> int) list"

record qobj_experiment =
  header :: qobj_header
  instructions :: "instruction list"

text \<open>
  The dictionary \<^verbatim>\<open>{'measurements': ..., 'number_of_clbits': ...}\<close> that
  \<^verbatim>\<open>_collect_measurements\<close> returns; a pair \<open>(q, c)\<close> is the list
  \<^verbatim>\<open>[qubit_index, classical_bit_index]\<close>.
\<close>

record measurements_dict =
  measurements :: "(int \<times> int) list"
  number_of_clbits :: int

section \<open>Python sequences\<close>

text \<open>\<^verbatim>\<open>xs[0]\<close>: raises IndexError on an empty list.\<close>

fun first_elem :: "'a list \<Rightarrow> error + 'a" where
  "first_elem [] = Inl IndexError"
| "first_elem (x # _) = Inr x"

text \<open>\<^verbatim>\<open>range(n)\<close> for an integer \<open>n\<close>: empty when \<open>n \<le> 0\<close>.\<close>

definition py_range :: "int \<Rightarrow> int list" where
  "py_range n = map int [0 ..< nat n]"

section \<open>Collecting the measurements\<close>

text \<open>
  The list comprehension of \<^verbatim>\<open>_collect_measurements\<close>: for every instruction
  named \<^verbatim>\<open>measure\<close>, in order, the pair
  \<^verbatim>\<open>[number_of_qubits - 1 - m.qubits[0], number_of_clbits - 1 - m.memory[0]]\<close>.
\<close>

fun measure_pairs :: "int \<Rightarrow> int \<Rightarrow> instruction list \<Rightarrow> error + (int \<times> int) list" where
  "measure_pairs nq nc [] = Inr []"
| "measure_pairs nq nc (m # ms) =
     (if name m = ''measure'' then
        (case first_elem (qubits m) of
           Inl e \<Rightarrow> Inl e
         | Inr q \<Rightarrow>
             (case first_elem (memory m) of
                Inl e \<Rightarrow> Inl e
              | Inr b \<Rightarrow>
                  (case measure_pairs nq nc ms of
                     Inl e \<Rightarrow> Inl e
                   | Inr r \<Rightarrow> Inr ((nq - 1 - q, nc - 1 - b) # r))))
      else measure_pairs nq nc ms)"

definition collect_measurements :: "qobj_experiment \<Rightarrow> error + measurements_dict" where
  "collect_measurements e =
     (let number_of_qubits = n_qubits (header e);
          number_of_clbits' = memory_slots (header e)
      in case measure_pairs number_of_qubits number_of_clbits' (instructions e) of
           Inl err \<Rightarrow> Inl err
         | Inr ms \<Rightarrow>
             Inr \<lparr> measurements =
                     (if ms = [] then map (\<lambda>index. (index, index)) (py_range number_of_qubits)
                      else ms),
                   number_of_clbits = number_of_clbits' \<rparr>)"

section \<open>Python strings of numbers\<close>

text \<open>
  The digits of a natural number in base \<open>b\<close> (2, 10 or 16), most significant first,
  with the lower-case letters Python prints for the digits above 9.
\<close>

definition digit_char :: "nat \<Rightarrow> char" where
  "digit_char d = (if d < 10 then char_of (48 + d) else char_of (87 + d))"

function digits_of :: "nat \<Rightarrow> nat \<Rightarrow> string" where
  "digits_of b n =
     (if n < b \<or> b < 2 then [digit_char n]
      else digits_of b (n div b) @ [digit_char (n mod b)])"
  by pat_completeness auto
termination
  by (relation "measure (\<lambda>(b, n). n)") auto

declare digits_of.simps [simp del]

text \<open>\<^verbatim>\<open>'%d' % i\<close> and \<^verbatim>\<open>'{}'.format(i)\<close> for an integer.\<close>

definition str_int :: "int \<Rightarrow> string" where
  "str_int i = (if i < 0 then CHR ''-'' # digits_of 10 (nat (- i)) else digits_of 10 (nat i))"

text \<open>\<^verbatim>\<open>hex(i)\<close>: the prefix \<^verbatim>\<open>0x\<close> and a sign before it.\<close>

definition hex :: "int \<Rightarrow> string" where
  "hex i = (if i < 0 then ''-0x'' @ digits_of 16 (nat (- i)) else ''0x'' @ digits_of 16 (nat i))"

text \<open>
  \<^verbatim>\<open>'{0:0{1}b}'.format(v, w)\<close>: the binary digits of \<open>v\<close>, filled with zeros
  on the left to the width \<open>w\<close>; the sign of a negative value comes first and counts
  for the width. A negative width is not a format specifier (ValueError).
\<close>

definition zero_pad :: "nat \<Rightarrow> string \<Rightarrow> string" where
  "zero_pad w s = replicate (w - length s) CHR ''0'' @ s"

definition format_bin :: "int \<Rightarrow> int \<Rightarrow> error + string" where
  "format_bin v w =
     (if w < 0 then Inl ValueError
      else if v < 0 then Inr (CHR ''-'' # zero_pad (nat w - 1) (digits_of 2 (nat (- v))))
      else Inr (zero_pad (nat w) (digits_of 2 (nat v))))"

text \<open>
  \<^verbatim>\<open>int(s, base)\<close> for the bases 2, 10 and 16, on the strings the backend builds: an
  optional minus sign, an optional prefix (\<^verbatim>\<open>0b\<close>, \<^verbatim>\<open>0x\<close>), then at least
  one digit of the base. Anything else is a ValueError. (Python also accepts a plus
  sign, surrounding blanks and underscores between digits; \<^verbatim>\<open>classical_state\<close>
  holds only the characters 0, 1 and -, and a histogram key is printed by
  \<^verbatim>\<open>hex\<close>, so those forms do not occur.)
\<close>

definition digit_val :: "char \<Rightarrow> nat option" where
  "digit_val c =
     (let k = (of_char c :: nat) in
      if 48 \<le> k \<and> k \<le> 57 then Some (k - 48)
      else if 97 \<le> k \<and> k \<le> 102 then Some (k - 87)
      else if 65 \<le> k \<and> k \<le> 70 then Some (k - 55)
      else None)"

fun digits_val :: "nat \<Rightarrow> nat \<Rightarrow> string \<Rightarrow> nat option" where
  "digits_val b acc [] = Some acc"
| "digits_val b acc (c # cs) =
     (case digit_val c of
        None \<Rightarrow> None
      | Some d \<Rightarrow> if d < b then digits_val b (b * acc + d) cs else None)"

fun strip_prefix :: "nat \<Rightarrow> string \<Rightarrow> string" where
  "strip_prefix b (c # d # s) =
     (if c = CHR ''0'' \<and> ((b = 16 \<and> (d = CHR ''x'' \<or> d = CHR ''X'')) \<or>
                            (b = 2 \<and> (d = CHR ''b'' \<or> d = CHR ''B'')))
      then s else c # d # s)"
| "strip_prefix b s = s"

fun strip_sign :: "string \<Rightarrow> bool \<times> string" where
  "strip_sign [] = (False, [])"
| "strip_sign (c # s) = (if c = CHR ''-'' then (True, s) else (False, c # s))"

definition py_int :: "nat \<Rightarrow> string \<Rightarrow> error + int" where
  "py_int b s =
     (case strip_sign s of
        (neg, t) \<Rightarrow>
          (let u = strip_prefix b t in
           if u = [] then Inl ValueError
           else case digits_val b 0 u of
                  None \<Rightarrow> Inl ValueError
                | Some v \<Rightarrow> Inr (if neg then - int v else int v)))"

text \<open>
  \<^verbatim>\<open>xs[i]\<close> for an integer index: a negative index counts from the end, and an
  index outside the sequence raises IndexError. The result is the position read or
  written.
\<close>

definition py_index :: "'a list \<Rightarrow> int \<Rightarrow> error + nat" where
  "py_index xs i =
     (let n = int (length xs); j = (if i < 0 then i + n else i)
      in if 0 \<le> j \<and> j < n then Inr (nat j) else Inl IndexError)"

section \<open>From the qubit register to the classical state\<close>

text \<open>
  The loop of \<^verbatim>\<open>__qubit_to_classical_hex\<close>:
  \<^verbatim>\<open>classical_state[c] = qubit_state[q]\<close> for every pair of the measurement map.
  The right-hand side is read first.
\<close>

fun assign_bits :: "string \<Rightarrow> (int \<times> int) list \<Rightarrow> string \<Rightarrow> error + string" where
  "assign_bits qubit_state [] classical_state = Inr classical_state"
| "assign_bits qubit_state ((q, c) # ms) classical_state =
     (case py_index qubit_state q of
        Inl e \<Rightarrow> Inl e
      | Inr qi \<Rightarrow>
          (case py_index classical_state c of
             Inl e \<Rightarrow> Inl e
           | Inr ci \<Rightarrow> assign_bits qubit_state ms (classical_state[ci := qubit_state ! qi])))"

text \<open>
  \<^verbatim>\<open>__qubit_to_classical_hex\<close>. The register value is the integer
  \<^verbatim>\<open>int(qubit_register)\<close>.
\<close>

definition qubit_to_classical_hex :: "int \<Rightarrow> measurements_dict \<Rightarrow> int \<Rightarrow> error + string" where
  "qubit_to_classical_hex qubit_register ms number_of_qubits =
     (case format_bin qubit_register number_of_qubits of
        Inl e \<Rightarrow> Inl e
      | Inr qubit_state \<Rightarrow>
          (case assign_bits qubit_state (measurements ms)
                  (replicate (nat (number_of_clbits ms)) CHR ''0'') of
             Inl e \<Rightarrow> Inl e
           | Inr classical_state \<Rightarrow>
               (case py_int 2 classical_state of
                  Inl e \<Rightarrow> Inl e
                | Inr v \<Rightarrow> Inr (hex v))))"

section \<open>Results of the platform\<close>

text \<open>
  A Python dictionary is the list of its items in insertion order, with distinct keys:
  \<^verbatim>\<open>d[k] = v\<close> is \<^const>\<open>AList.update\<close> (the value of a key that is
  present is replaced where it stands, a new key goes to the end), and reading a
  \<^verbatim>\<open>defaultdict(lambda: 0)\<close> gives 0 for a key that is absent.

  The result record the API returns for a job: its histogram (absent, or a dictionary
  from the register value to its probability), the diagnostic text, the number of
  qubits and the execution time. The type \<open>'p\<close> is the type of the probabilities,
  with the addition and the comparison the program uses on them: \<open>float64\<close> below
  for the floats of Python, \<open>real\<close> for exact arithmetic.
\<close>

record 'p result =
  histogram :: "(int \<times> 'p) list option"
  raw_text :: "string option"
  number_of_qubits :: int
  execution_time_in_seconds :: "'p option"

definition default_get :: "('k \<times> 'v::zero) list \<Rightarrow> 'k \<Rightarrow> 'v" where
  "default_get d k = (case map_of d k of None \<Rightarrow> 0 | Some v \<Rightarrow> v)"

text \<open>
  \<^verbatim>\<open>OrderedDict(sorted(d.items(), key=lambda kv: int(kv[0], 16)))\<close>: a stable sort
  by the number the key stands for; it raises when a key is not a number.
\<close>

definition hex_key :: "string \<times> 'v \<Rightarrow> int" where
  "hex_key kv = (case py_int 16 (fst kv) of Inl _ \<Rightarrow> 0 | Inr v \<Rightarrow> v)"

definition sorted_by_hex :: "(string \<times> 'v) list \<Rightarrow> error + (string \<times> 'v) list" where
  "sorted_by_hex items =
     (if list_ex (\<lambda>kv. py_int 16 (fst kv) = Inl ValueError) items then Inl ValueError
      else Inr (sort_key hex_key items))"

text \<open>
  The loop of \<^verbatim>\<open>__convert_histogram\<close>:
  \<^verbatim>\<open>output_histogram_probabilities[classical_state_hex] += probability\<close>.
\<close>

fun add_probabilities ::
    "measurements_dict \<Rightarrow> int \<Rightarrow> (int \<times> 'p::{zero,plus}) list \<Rightarrow> (string \<times> 'p) list \<Rightarrow>
     error + (string \<times> 'p) list" where
  "add_probabilities ms nq [] out = Inr out"
| "add_probabilities ms nq ((qubit_register, probability) # items) out =
     (case qubit_to_classical_hex qubit_register ms nq of
        Inl e \<Rightarrow> Inl e
      | Inr classical_state_hex \<Rightarrow>
          add_probabilities ms nq items
            (AList.update classical_state_hex
               (default_get out classical_state_hex + probability) out))"

text \<open>
  \<^verbatim>\<open>__convert_histogram\<close> up to the sorted \<^verbatim>\<open>OrderedDict\<close>
  (\<^verbatim>\<open>full_state_histogram_obj\<close>); \<^verbatim>\<open>result['histogram']\<close> raises KeyError
  when the result has no histogram.
\<close>

definition full_state_histogram ::
    "('p::{zero,plus}) result \<Rightarrow> measurements_dict \<Rightarrow> error + (string \<times> 'p) list" where
  "full_state_histogram r ms =
     (case histogram r of
        None \<Rightarrow> Inl KeyError
      | Some state_probability \<Rightarrow>
          (case add_probabilities ms (number_of_qubits r) state_probability [] of
             Inl e \<Rightarrow> Inl e
           | Inr output_histogram_probabilities \<Rightarrow>
               sorted_by_hex output_histogram_probabilities))"

text \<open>
  \<^verbatim>\<open>__convert_result_data\<close>. With raw data: every shot is converted
  (\<open>memory_of\<close>), the shots are counted (\<open>counter\<close> is
  \<^verbatim>\<open>Counter(memory_data).items()\<close>, in order of first occurrence) and the counts
  are stored (\<open>store_counts\<close>).
\<close>

fun memory_of :: "measurements_dict \<Rightarrow> int \<Rightarrow> int list \<Rightarrow> error + string list" where
  "memory_of ms nq [] = Inr []"
| "memory_of ms nq (qubit_register # raw_data) =
     (case qubit_to_classical_hex qubit_register ms nq of
        Inl e \<Rightarrow> Inl e
      | Inr classical_state_hex \<Rightarrow>
          (case memory_of ms nq raw_data of
             Inl e \<Rightarrow> Inl e
           | Inr memory_data \<Rightarrow> Inr (classical_state_hex # memory_data)))"

definition counter :: "'k list \<Rightarrow> ('k \<times> int) list" where
  "counter xs = foldl (\<lambda>d x. AList.update x (default_get d x + 1) d) [] xs"

definition store_counts :: "('k \<times> int) list \<Rightarrow> ('k \<times> int) list \<Rightarrow> ('k \<times> int) list" where
  "store_counts items histogram_data =
     foldl (\<lambda>d (elem, count). AList.update elem count d) histogram_data items"

text \<open>
  Without raw data: the loop over the histogram with the random number \<open>prob\<close>
  (the value \<^verbatim>\<open>np.random.rand()\<close> returned) and the running sum. It stops at the
  first entry where \<^verbatim>\<open>prob < sum_probability\<close> and gives that entry's key; it
  gives nothing when the loop ends without such an entry.
\<close>

fun select_state :: "'p \<Rightarrow> 'p \<Rightarrow> (int \<times> 'p::{plus,ord}) list \<Rightarrow> int option" where
  "select_state prob sum_probability [] = None"
| "select_state prob sum_probability ((qubit_register, probability) # items) =
     (if prob < sum_probability + probability then Some qubit_register
      else select_state prob (sum_probability + probability) items)"

text \<open>
  The function up to the sorted \<^verbatim>\<open>OrderedDict\<close> of the counts
  (\<^verbatim>\<open>histogram_obj\<close>) and the memory data; the running sum starts at
  \<^verbatim>\<open>0.0\<close>.
\<close>

definition histogram_and_memory ::
    "('p::{zero,plus,ord}) result \<Rightarrow> measurements_dict \<Rightarrow> int list \<Rightarrow> 'p \<Rightarrow>
     error + ((string \<times> int) list \<times> string list)" where
  "histogram_and_memory r ms raw_data prob =
     (case
        (if raw_data \<noteq> [] then
           (case memory_of ms (number_of_qubits r) raw_data of
              Inl e \<Rightarrow> Inl e
            | Inr memory_data \<Rightarrow> Inr (store_counts (counter memory_data) [], memory_data))
         else
           (case histogram r of
              None \<Rightarrow> Inl KeyError
            | Some state_probabilities \<Rightarrow>
                (case select_state prob 0 state_probabilities of
                   None \<Rightarrow> Inr ([], [])
                 | Some qubit_register \<Rightarrow>
                     (case qubit_to_classical_hex qubit_register ms (number_of_qubits r) of
                        Inl e \<Rightarrow> Inl e
                      | Inr classical_state_hex \<Rightarrow>
                          Inr (AList.update classical_state_hex 1 [], [classical_state_hex])))))
      of
        Inl e \<Rightarrow> Inl e
      | Inr (histogram_data, memory_data) \<Rightarrow>
          (case sorted_by_hex histogram_data of
             Inl e \<Rightarrow> Inl e
           | Inr histogram_obj \<Rightarrow> Inr (histogram_obj, memory_data)))"

text \<open>
  Both functions return \<^verbatim>\<open>Obj.from_dict\<close> of the sorted dictionary.
  \<^verbatim>\<open>Obj\<close> is a class of Qiskit, outside the repository, so the function that
  makes the object is a parameter: \<open>from_dict\<close> takes the items of the dictionary
  in their order and gives the object.
\<close>

definition convert_histogram ::
    "((string \<times> 'p) list \<Rightarrow> 'o) \<Rightarrow> ('p::{zero,plus}) result \<Rightarrow> measurements_dict \<Rightarrow> error + 'o" where
  "convert_histogram from_dict r ms =
     (case full_state_histogram r ms of
        Inl e \<Rightarrow> Inl e
      | Inr full_state_histogram_obj \<Rightarrow> Inr (from_dict full_state_histogram_obj))"

definition convert_result_data ::
    "((string \<times> int) list \<Rightarrow> 'c) \<Rightarrow> ('p::{zero,plus,ord}) result \<Rightarrow> measurements_dict \<Rightarrow>
     int list \<Rightarrow> 'p \<Rightarrow> error + ('c \<times> string list)" where
  "convert_result_data from_dict r ms raw_data prob =
     (case histogram_and_memory r ms raw_data prob of
        Inl e \<Rightarrow> Inl e
      | Inr (histogram_obj, memory_data) \<Rightarrow> Inr (from_dict histogram_obj, memory_data))"

section \<open>Experiment results\<close>

text \<open>
  What \<^verbatim>\<open>get_experiment_results\<close> reads for one job: the job record of the
  project (its name, its number of shots and the user data stored at submission, as
  \<^verbatim>\<open>json.loads\<close> gives it), the result record, the raw data of the result, and
  the number \<^verbatim>\<open>np.random.rand()\<close> returns if it is called for this job.
\<close>

record result_header =
  ud_name :: string
  ud_memory_slots :: int
  ud_creg_sizes :: "(string \<times> int) list"

record user_data = result_header +
  ud_measurements :: measurements_dict

record job =
  job_name :: string
  number_of_shots :: int
  job_user_data :: user_data

record 'p fetched =
  fetched_job :: job
  fetched_result :: "'p result"
  raw_data :: "int list"
  rand :: 'p

text \<open>
  The data of an experiment result hold the two objects \<^verbatim>\<open>Obj.from_dict\<close> made
  (of type \<open>'c\<close> for the counts and \<open>'o\<close> for the probabilities) and the memory
  list.
\<close>

record ('c, 'o) experiment_result_data =
  counts :: 'c
  probabilities :: 'o
  data_memory :: "string list"

record ('c, 'o, 'p) experiment_result =
  result_name :: string
  seed :: int
  result_shots :: int
  data :: "('c, 'o) experiment_result_data"
  status :: string
  success :: bool
  time_taken :: "'p option"
  result_header :: result_header

definition nl :: char where
  "nl = CHR 0x0A"

text \<open>\<^verbatim>\<open>'{}'.format(x)\<close> for a text that may be absent (\<^verbatim>\<open>None\<close>).\<close>

definition format_text :: "string option \<Rightarrow> string" where
  "format_text t = (case t of None \<Rightarrow> ''None'' | Some s \<Rightarrow> s)"

definition no_histogram_message :: "'p result \<Rightarrow> string" where
  "no_histogram_message r =
     ''Result from backend contains no histogram data!'' @ [nl] @ format_text (raw_text r)"

text \<open>\<^verbatim>\<open>not result.get('histogram', {})\<close>: the histogram is absent or empty.\<close>

definition no_histogram :: "'p result \<Rightarrow> bool" where
  "no_histogram r = (case histogram r of None \<Rightarrow> True | Some h \<Rightarrow> h = [])"

text \<open>
  The body of the loop of \<^verbatim>\<open>get_experiment_results\<close>, for one job.
  \<^verbatim>\<open>Obj.from_dict\<close> is used for the counts and for the probabilities, whose
  values have different types, so it is given once for each.
\<close>

definition experiment_result_of ::
    "((string \<times> int) list \<Rightarrow> 'c) \<Rightarrow> ((string \<times> 'p) list \<Rightarrow> 'o) \<Rightarrow>
     ('p::{zero,plus,ord}) fetched \<Rightarrow> error + ('c, 'o, 'p) experiment_result" where
  "experiment_result_of from_dict_counts from_dict_probabilities f =
     (let r = fetched_result f; j = fetched_job f in
      if no_histogram r then Inl (QisKitBackendError (no_histogram_message r))
      else
        (let ud = job_user_data j; ms = ud_measurements ud in
         case convert_result_data from_dict_counts r ms (raw_data f) (rand f) of
           Inl e \<Rightarrow> Inl e
         | Inr (histogram_obj, memory_data) \<Rightarrow>
             (case convert_histogram from_dict_probabilities r ms of
                Inl e \<Rightarrow> Inl e
              | Inr full_state_histogram_obj \<Rightarrow>
                  Inr \<lparr>result_name = job_name j, seed = 42, result_shots = number_of_shots j,
                       data = \<lparr>counts = histogram_obj,
                               probabilities = full_state_histogram_obj,
                               data_memory = memory_data\<rparr>,
                       status = ''DONE'', success = True,
                       time_taken = execution_time_in_seconds r,
                       result_header = \<lparr>ud_name = ud_name ud,
                                        ud_memory_slots = ud_memory_slots ud,
                                        ud_creg_sizes = ud_creg_sizes ud\<rparr>\<rparr>)))"

fun get_experiment_results ::
    "((string \<times> int) list \<Rightarrow> 'c) \<Rightarrow> ((string \<times> 'p) list \<Rightarrow> 'o) \<Rightarrow>
     ('p::{zero,plus,ord}) fetched list \<Rightarrow> error + ('c, 'o, 'p) experiment_result list" where
  "get_experiment_results from_dict_counts from_dict_probabilities [] = Inr []"
| "get_experiment_results from_dict_counts from_dict_probabilities (f # fs) =
     (case experiment_result_of from_dict_counts from_dict_probabilities f of
        Inl e \<Rightarrow> Inl e
      | Inr x \<Rightarrow>
          (case get_experiment_results from_dict_counts from_dict_probabilities fs of
             Inl e \<Rightarrow> Inl e
           | Inr experiment_results \<Rightarrow> Inr (x # experiment_results)))"

section \<open>The floats of Python\<close>

text \<open>
  A Python float is a binary64 number. A finite one is the rational number it stands
  for; \<open>round64\<close> rounds a rational number to the nearest binary64 number, a tie
  to the one with the even significand: the significand has 53 bits, and below
  \<open>pow2 (- 1022)\<close> the numbers are the multiples of \<open>pow2 (- 1074)\<close>. Sums
  that overflow (to infinity) are outside the model.
\<close>

definition pow2 :: "int \<Rightarrow> rat" where
  "pow2 e = (if 0 \<le> e then 2 ^ nat e else 1 / 2 ^ nat (- e))"

text \<open>The exponent of a non-zero rational: \<open>pow2 (ilog2 x) \<le> \<bar>x\<bar> < pow2 (ilog2 x + 1)\<close>.\<close>

definition ilog2 :: "rat \<Rightarrow> int" where
  "ilog2 x =
     (case quotient_of \<bar>x\<bar> of
        (p, q) \<Rightarrow> (let d = bitlen p - bitlen q in if pow2 d \<le> \<bar>x\<bar> then d else d - 1))"

definition round_half_even :: "rat \<Rightarrow> int" where
  "round_half_even x =
     (let n = \<lfloor>x\<rfloor>; f = x - of_int n in
      if f < 1 / 2 then n else if 1 / 2 < f then n + 1 else if even n then n else n + 1)"

definition round64 :: "rat \<Rightarrow> rat" where
  "round64 x =
     (if x = 0 then 0
      else (let e = max (ilog2 x) (- 1022); u = pow2 (e - 52) in
            of_int (round_half_even (x / u)) * u))"

datatype float64 = Float64 rat

fun float64_value :: "float64 \<Rightarrow> rat" where
  "float64_value (Float64 x) = x"

text \<open>The float a decimal literal such as \<^verbatim>\<open>0.35\<close> stands for.\<close>

definition float_lit :: "rat \<Rightarrow> float64" where
  "float_lit x = Float64 (round64 x)"

instantiation float64 :: "{zero,plus,ord}"
begin

definition zero_float64 :: float64 where
  "zero_float64 = Float64 0"

definition plus_float64 :: "float64 \<Rightarrow> float64 \<Rightarrow> float64" where
  "plus_float64 a b = Float64 (round64 (float64_value a + float64_value b))"

definition less_eq_float64 :: "float64 \<Rightarrow> float64 \<Rightarrow> bool" where
  "less_eq_float64 a b = (float64_value a \<le> float64_value b)"

definition less_float64 :: "float64 \<Rightarrow> float64 \<Rightarrow> bool" where
  "less_float64 a b = (float64_value a < float64_value b)"

instance ..

end

section \<open>Generating cQASM\<close>

text \<open>\<^verbatim>\<open>str.lower\<close> on ASCII text.\<close>

definition lower_char :: "char \<Rightarrow> char" where
  "lower_char c =
     (let k = (of_char c :: nat) in if 65 \<le> k \<and> k \<le> 90 then char_of (k + 32) else c)"

definition lower :: "string \<Rightarrow> string" where
  "lower s = map lower_char s"

text \<open>
  \<^verbatim>\<open>_generate_cqasm\<close> creates a \<^verbatim>\<open>CircuitToString\<close> parser, looks the
  method \<^verbatim>\<open>'_' + name.lower()\<close> up in it for every instruction and calls it.
  The class is in \<^verbatim>\<open>circuit_parser.py\<close>, which is not among the sources, so the
  parser is a parameter: given its state, the method name and the instruction, it
  raises, or returns a line (\<open>Some\<close>) or something that is not a string
  (\<open>None\<close>), and its new state.
\<close>

type_synonym 's parser = "'s \<Rightarrow> string \<Rightarrow> instruction \<Rightarrow> error + (string option \<times> 's)"

definition cqasm_header :: "int \<Rightarrow> string" where
  "cqasm_header n =
     ''version 1.0'' @ [nl] @
     ''# cQASM generated by QI backend for Qiskit'' @ [nl] @
     ''qubits '' @ str_int n @ [nl]"

text \<open>The loop over the instructions; \<open>stream\<close> is the text written so far.\<close>

fun write_instructions ::
    "'s parser \<Rightarrow> 's \<Rightarrow> instruction list \<Rightarrow> string \<Rightarrow> error + string" where
  "write_instructions parser s [] stream = Inr stream"
| "write_instructions parser s (instruction # rest) stream =
     (case parser s (CHR ''_'' # lower (name instruction)) instruction of
        Inl e \<Rightarrow> Inl e
      | Inr (line, s') \<Rightarrow>
          write_instructions parser s' rest
            (case line of Some l \<Rightarrow> stream @ l | None \<Rightarrow> stream))"

definition generate_cqasm :: "'s parser \<Rightarrow> 's \<Rightarrow> qobj_experiment \<Rightarrow> error + string" where
  "generate_cqasm parser s0 e =
     write_instructions parser s0 (instructions e) (cqasm_header (n_qubits (header e)))"

text \<open>
  The statements the parser emits for a list of instructions, one after the other:
  what the claims call the statements emitted for the instructions in order.
\<close>

fun statements :: "'s parser \<Rightarrow> 's \<Rightarrow> instruction list \<Rightarrow> error + string list" where
  "statements parser s [] = Inr []"
| "statements parser s (instruction # rest) =
     (case parser s (CHR ''_'' # lower (name instruction)) instruction of
        Inl e \<Rightarrow> Inl e
      | Inr (line, s') \<Rightarrow>
          (case statements parser s' rest of
             Inl e \<Rightarrow> Inl e
           | Inr ls \<Rightarrow> Inr ((case line of Some l \<Rightarrow> [l] | None \<Rightarrow> []) @ ls)))"

text \<open>The state of the parser after a list of instructions it accepts.\<close>

fun parser_state :: "'s parser \<Rightarrow> 's \<Rightarrow> instruction list \<Rightarrow> 's" where
  "parser_state parser s [] = s"
| "parser_state parser s (instruction # rest) =
     (case parser s (CHR ''_'' # lower (name instruction)) instruction of
        Inl e \<Rightarrow> s
      | Inr (line, s') \<Rightarrow> parser_state parser s' rest)"

text \<open>
  \<^verbatim>\<open>getattr(parser, gate_name)\<close> has no default value: on an object with that
  method it gives the method, which is then called with the instruction, and on an
  object without it Python raises \<^verbatim>\<open>AttributeError\<close>, which names the
  attribute. The methods of the parser are the parameter \<open>methods\<close>, from the
  method name to what the method does.
\<close>

definition getattr_call ::
    "(string \<Rightarrow> ('s \<Rightarrow> instruction \<Rightarrow> error + (string option \<times> 's)) option) \<Rightarrow> 's parser" where
  "getattr_call methods s gate_name i =
     (case methods gate_name of
        None \<Rightarrow> Inl (AttributeError gate_name)
      | Some gate_function \<Rightarrow> gate_function s i)"

text \<open>
  Modelled from the spec: \<^verbatim>\<open>CircuitToString.get_mask_data\<close>
  (\<^verbatim>\<open>circuit_parser.py\<close> is not among the sources). Given a non-negative
  bitmask it returns the position of the lowest set bit and the number of bits spanned
  from the lowest set bit through the highest set bit, or \<open>(-1, 0)\<close> for a zero
  mask.
\<close>

fun lowest_set_bit :: "nat \<Rightarrow> nat" where
  "lowest_set_bit n = (if n = 0 \<or> odd n then 0 else Suc (lowest_set_bit (n div 2)))"

fun bit_count :: "nat \<Rightarrow> nat" where
  "bit_count n = (if n = 0 then 0 else Suc (bit_count (n div 2)))"

declare lowest_set_bit.simps [simp del] bit_count.simps [simp del]

definition get_mask_data :: "nat \<Rightarrow> int \<times> int" where
  "get_mask_data m =
     (if m = 0 then (- 1, 0)
      else (int (lowest_set_bit m), int (bit_count m - lowest_set_bit m)))"

section \<open>Validating and running a job\<close>

record qobj_config =
  shots :: int

record qobj =
  config :: qobj_config
  experiments :: "qobj_experiment list"

definition validate_number_of_shots :: "qobj \<Rightarrow> error + unit" where
  "validate_number_of_shots q =
     (let n = shots (config q) in
      if n < 1
      then Inl (QisKitBackendError (''Invalid shots (number_of_shots='' @ str_int n @ '')''))
      else Inr ())"

definition validate_number_of_clbits :: "qobj_experiment \<Rightarrow> error + unit" where
  "validate_number_of_clbits e =
     (let n = memory_slots (header e) in
      if n < 1
      then Inl (QisKitBackendError (''Invalid amount of classical bits ('' @ str_int n @ '')!''))
      else Inr ())"

text \<open>
  \<^verbatim>\<open>__validate_no_gates_after_measure\<close>: the inner loop over the qubits of one
  instruction and the outer loop over the instructions, with the list
  \<^verbatim>\<open>measured_qubits\<close>.
\<close>

fun check_qubits :: "string \<Rightarrow> int list \<Rightarrow> int list \<Rightarrow> error + int list" where
  "check_qubits instruction_name [] measured_qubits = Inr measured_qubits"
| "check_qubits instruction_name (qubit # rest) measured_qubits =
     (if instruction_name = ''measure''
      then check_qubits instruction_name rest (measured_qubits @ [qubit])
      else if qubit \<in> set measured_qubits
      then Inl (QisKitBackendError ''Operation after measurement!'')
      else check_qubits instruction_name rest measured_qubits)"

fun check_instructions :: "instruction list \<Rightarrow> int list \<Rightarrow> error + unit" where
  "check_instructions [] measured_qubits = Inr ()"
| "check_instructions (instruction # rest) measured_qubits =
     (case check_qubits (name instruction) (qubits instruction) measured_qubits of
        Inl e \<Rightarrow> Inl e
      | Inr measured_qubits' \<Rightarrow> check_instructions rest measured_qubits')"

definition validate_no_gates_after_measure :: "qobj_experiment \<Rightarrow> error + unit" where
  "validate_no_gates_after_measure e = check_instructions (instructions e) []"

fun validate_experiments :: "qobj_experiment list \<Rightarrow> error + unit" where
  "validate_experiments [] = Inr ()"
| "validate_experiments (e # es) =
     (case validate_number_of_clbits e of
        Inl err \<Rightarrow> Inl err
      | Inr _ \<Rightarrow>
          (case validate_no_gates_after_measure e of
             Inl err \<Rightarrow> Inl err
           | Inr _ \<Rightarrow> validate_experiments es))"

definition validate :: "qobj \<Rightarrow> error + unit" where
  "validate q =
     (case validate_number_of_shots q of
        Inl err \<Rightarrow> Inl err
      | Inr _ \<Rightarrow> validate_experiments (experiments q))"

text \<open>
  \<^verbatim>\<open>run\<close> talks to the platform through the API. The model records the calls
  made, in order, and takes the API's answers as given: the calls themselves do not
  fail, \<open>identifier\<close> is the UUID drawn for the project name and \<open>project_id\<close>
  the id of the project created.
\<close>

datatype api_call =
    Create_project string int
  | Execute_qasm_async string int string user_data

record qi_job =
  job_id :: string
  job_experiments :: "qobj_experiment list"

definition submit_experiment ::
    "'s parser \<Rightarrow> 's \<Rightarrow> qobj_experiment \<Rightarrow> int \<Rightarrow> error + api_call" where
  "submit_experiment parser s0 e n =
     (case generate_cqasm parser s0 e of
        Inl err \<Rightarrow> Inl err
      | Inr compiled_qasm \<Rightarrow>
          (case collect_measurements e of
             Inl err \<Rightarrow> Inl err
           | Inr ms \<Rightarrow>
               Inr (Execute_qasm_async compiled_qasm n (header_name (header e))
                      \<lparr>ud_name = header_name (header e),
                       ud_memory_slots = memory_slots (header e),
                       ud_creg_sizes = creg_sizes (header e),
                       ud_measurements = ms\<rparr>)))"

text \<open>
  The list comprehension that submits the experiments: the calls made, and the
  exception that ended it, if any.
\<close>

fun submit_experiments ::
    "'s parser \<Rightarrow> 's \<Rightarrow> int \<Rightarrow> qobj_experiment list \<Rightarrow> api_call list \<times> error option" where
  "submit_experiments parser s0 n [] = ([], None)"
| "submit_experiments parser s0 n (e # es) =
     (case submit_experiment parser s0 e n of
        Inl err \<Rightarrow> ([], Some err)
      | Inr call \<Rightarrow>
          (case submit_experiments parser s0 n es of
             (calls, r) \<Rightarrow> (call # calls, r)))"

definition run ::
    "'s parser \<Rightarrow> 's \<Rightarrow> string \<Rightarrow> string \<Rightarrow> qobj \<Rightarrow> api_call list \<times> (error + qi_job)" where
  "run parser s0 identifier project_id q =
     (case validate q of
        Inl err \<Rightarrow> ([], Inl err)
      | Inr _ \<Rightarrow>
          (let n = shots (config q);
               project_name = ''qi-sdk-project-'' @ identifier
           in case submit_experiments parser s0 n (experiments q) of
                (calls, r) \<Rightarrow>
                  (Create_project project_name n # calls,
                   case r of
                     Some err \<Rightarrow> Inl err
                   | None \<Rightarrow> Inr \<lparr>job_id = project_id, job_experiments = experiments q\<rparr>)))"

text \<open>
  What the validation is to reject, stated on the job: fewer than one shot, an
  experiment with fewer than one classical bit, or an experiment where an instruction
  other than a measurement acts on a qubit that an earlier measure instruction names.
\<close>

definition operation_after_measurement :: "instruction list \<Rightarrow> bool" where
  "operation_after_measurement ins =
     (\<exists>pre op post m.
        ins = pre @ op # post \<and> m \<in> set pre \<and>
        name m = ''measure'' \<and> name op \<noteq> ''measure'' \<and>
        set (qubits m) \<inter> set (qubits op) \<noteq> {})"

definition invalid_experiment :: "qobj_experiment \<Rightarrow> bool" where
  "invalid_experiment e =
     (memory_slots (header e) < 1 \<or> operation_after_measurement (instructions e))"

definition invalid_qobj :: "qobj \<Rightarrow> bool" where
  "invalid_qobj q = (shots (config q) < 1 \<or> list_ex invalid_experiment (experiments q))"

text \<open>The messages of the three checks, for a job.\<close>

definition validation_messages :: "qobj \<Rightarrow> string set" where
  "validation_messages q =
     {''Invalid shots (number_of_shots='' @ str_int (shots (config q)) @ '')'',
      ''Operation after measurement!''} \<union>
     (\<lambda>e. ''Invalid amount of classical bits ('' @ str_int (memory_slots (header e)) @ '')!'') `
       set (experiments q)"

text \<open>
  The same condition with the qubits measured so far: in \<open>ins\<close>, an instruction
  other than a measurement acts on a qubit of \<open>S\<close> or on a qubit that a measure
  instruction before it names.
\<close>

definition after_measured :: "int set \<Rightarrow> instruction list \<Rightarrow> bool" where
  "after_measured S ins =
     (\<exists>pre op post.
        ins = pre @ op # post \<and> name op \<noteq> ''measure'' \<and>
        set (qubits op) \<inter>
          (S \<union> (\<Union>m \<in> {m \<in> set pre. name m = ''measure''}. set (qubits m))) \<noteq> {})"

section \<open>Predicates on histograms\<close>

text \<open>
  A dictionary whose keys are distinct and each printed by \<^verbatim>\<open>hex\<close>; and a
  histogram in ascending order: every key is a number for \<^verbatim>\<open>int(k, 16)\<close>, and
  these numbers increase strictly along the items.
\<close>

definition hex_keys :: "(string \<times> 'v) list \<Rightarrow> bool" where
  "hex_keys d = (distinct (map fst d) \<and> fst ` set d \<subseteq> range hex)"


text \<open>
  The circuit of \<^verbatim>\<open>test_generate_cqasm_with_entangle_algorithm\<close>: a Hadamard, a
  controlled-not and the measurement of both qubits; and the same circuit without its
  measurements.
\<close>

definition entangle_instructions :: "instruction list" where
  "entangle_instructions =
     [\<lparr>name = ''h'', qubits = [0], memory = [], conditional = None\<rparr>,
      \<lparr>name = ''cx'', qubits = [0, 1], memory = [], conditional = None\<rparr>]"

definition entangle_measures :: "instruction list" where
  "entangle_measures =
     [\<lparr>name = ''measure'', qubits = [0], memory = [0], conditional = None\<rparr>,
      \<lparr>name = ''measure'', qubits = [1], memory = [1], conditional = None\<rparr>]"

definition entangle_header :: qobj_header where
  "entangle_header =
     \<lparr>header_name = ''circuit0'', n_qubits = 2, memory_slots = 2, creg_sizes = [(''c0'', 2)]\<rparr>"

definition entangle_experiment :: qobj_experiment where
  "entangle_experiment =
     \<lparr>header = entangle_header, instructions = entangle_instructions @ entangle_measures\<rparr>"

definition unmeasured_experiment :: qobj_experiment where
  "unmeasured_experiment = \<lparr>header = entangle_header, instructions = entangle_instructions\<rparr>"

text \<open>The same gates in a circuit of five qubits and three classical bits.\<close>

definition five_qubit_experiment :: qobj_experiment where
  "five_qubit_experiment =
     \<lparr>header = \<lparr>header_name = ''circuit1'', n_qubits = 5, memory_slots = 3,
                creg_sizes = [(''c0'', 3)]\<rparr>,
      instructions = entangle_instructions\<rparr>"

text \<open>
  Inputs on which the projection does not raise: a string of binary digits; a
  measurement map whose qubit indices are below the number of qubits and whose bit
  indices are below the number of classical bits, with at least one classical bit; and
  a histogram whose register values are not negative.
\<close>

definition bin_string :: "string \<Rightarrow> bool" where
  "bin_string s = (set s \<subseteq> {CHR ''0'', CHR ''1''})"

definition well_formed_map :: "measurements_dict \<Rightarrow> int \<Rightarrow> bool" where
  "well_formed_map ms nq =
     (0 \<le> nq \<and> 1 \<le> number_of_clbits ms \<and>
      list_all (\<lambda>qc. 0 \<le> fst qc \<and> fst qc < nq \<and> 0 \<le> snd qc \<and> snd qc < number_of_clbits ms)
        (measurements ms))"

definition registers_ok :: "(int \<times> 'v) list \<Rightarrow> bool" where
  "registers_ok h = list_all (\<lambda>kv. 0 \<le> fst kv) h"



definition rounded_result64 :: "float64 result" where
  "rounded_result64 =
     \<lparr>histogram = Some [(0, float_lit (333333 / 1000000)), (1, float_lit (333333 / 1000000)),
                        (2, float_lit (333333 / 1000000))],
      raw_text = None, number_of_qubits = 2, execution_time_in_seconds = None\<rparr>"

text \<open>
  Sample data: a result over two qubits, the measurement map of the entangle circuit,
  a map that measures one qubit into one classical bit, and a result whose
  probabilities are rounded to six decimals.
\<close>

definition sample_result :: "real result" where
  "sample_result =
     \<lparr>histogram = Some [(0, 1 / 4), (3, 1 / 2), (1, 1 / 4)], raw_text = None,
      number_of_qubits = 2, execution_time_in_seconds = Some (1 / 10)\<rparr>"

definition full_map :: measurements_dict where
  "full_map = \<lparr>measurements = [(1, 1), (0, 0)], number_of_clbits = 2\<rparr>"


definition rounded_result :: "real result" where
  "rounded_result =
     \<lparr>histogram = Some [(0, 333333 / 1000000), (1, 333333 / 1000000), (2, 333333 / 1000000)],
      raw_text = None, number_of_qubits = 2, execution_time_in_seconds = Some (1 / 10)\<rparr>"

text \<open>
  Sample jobs: one that ran, with its raw data, one whose result has an empty
  histogram and a diagnostic text, and one whose result has neither a histogram nor a
  text.
\<close>

definition sample_job :: job where
  "sample_job =
     \<lparr>job_name = ''circuit0'', number_of_shots = 5,
      job_user_data = \<lparr>ud_name = ''circuit0'', ud_memory_slots = 2,
                       ud_creg_sizes = [(''c0'', 2)], ud_measurements = full_map\<rparr>\<rparr>"

definition sample_fetched :: "real fetched" where
  "sample_fetched =
     \<lparr>fetched_job = sample_job, fetched_result = sample_result,
      raw_data = [3, 0, 3, 1, 3], rand = 1 / 2\<rparr>"

definition failed_result :: "real result" where
  "failed_result =
     \<lparr>histogram = Some [], raw_text = Some ''Error: qubit index out of range'',
      number_of_qubits = 2, execution_time_in_seconds = None\<rparr>"

definition missing_result :: "real result" where
  "missing_result =
     \<lparr>histogram = None, raw_text = None, number_of_qubits = 2,
      execution_time_in_seconds = None\<rparr>"

definition missing_fetched :: "real fetched" where
  "missing_fetched =
     \<lparr>fetched_job = sample_job, fetched_result = missing_result, raw_data = [], rand = 1 / 2\<rparr>"

definition failed_fetched :: "real fetched" where
  "failed_fetched =
     \<lparr>fetched_job = sample_job, fetched_result = failed_result, raw_data = [], rand = 1 / 2\<rparr>"

definition sample_experiment_result ::
    "((string \<times> int) list, (string \<times> real) list, real) experiment_result" where
  "sample_experiment_result =
     \<lparr>result_name = ''circuit0'', seed = 42, result_shots = 5,
      data = \<lparr>counts = [(''0x0'', 1), (''0x1'', 1), (''0x3'', 3)],
              probabilities = [(''0x0'', 1 / 4), (''0x1'', 1 / 4), (''0x3'', 1 / 2)],
              data_memory = [''0x3'', ''0x0'', ''0x3'', ''0x1'', ''0x3'']\<rparr>,
      status = ''DONE'', success = True, time_taken = Some (1 / 10),
      result_header = \<lparr>ud_name = ''circuit0'', ud_memory_slots = 2,
                       ud_creg_sizes = [(''c0'', 2)]\<rparr>\<rparr>"

text \<open>
  Modelled from the spec: the methods of a parser for the examples, with the two
  statements the spec gives literally (\<^verbatim>\<open>H q[0]\<close> for a Hadamard,
  \<^verbatim>\<open>CNOT q[0], q[1]\<close> for a controlled-not); a measurement emits no text under
  full-state projection, and the declaration of a condition (\<^verbatim>\<open>bfunc\<close>) emits
  none either. The parser of the examples has no state.
\<close>

definition sample_gates ::
    "string \<Rightarrow> (unit \<Rightarrow> instruction \<Rightarrow> error + (string option \<times> unit)) option" where
  "sample_gates g =
     (if g = ''_h'' then
        Some (\<lambda>s i. case qubits i of
                       [q] \<Rightarrow> Inr (Some (''H q['' @ str_int q @ '']'' @ [nl]), s)
                     | _ \<Rightarrow> Inl IndexError)
      else if g = ''_cx'' then
        Some (\<lambda>s i. case qubits i of
                       [c, t] \<Rightarrow>
                         Inr (Some (''CNOT q['' @ str_int c @ ''], q['' @ str_int t @ '']'' @ [nl]), s)
                     | _ \<Rightarrow> Inl IndexError)
      else if g = ''_measure'' \<or> g = ''_bfunc'' then Some (\<lambda>s i. Inr (None, s))
      else None)"

text \<open>
  The instructions of \<^verbatim>\<open>test_generate_cqasm_correct_output_unknown_gate\<close> and
  of \<^verbatim>\<open>test_generate_cqasm_correct_output_unknown_controlled_gate\<close>.
\<close>

definition unknown_gate_experiment :: qobj_experiment where
  "unknown_gate_experiment =
     \<lparr>header = entangle_header,
      instructions = [\<lparr>name = ''bla'', qubits = [1], memory = [], conditional = None\<rparr>]\<rparr>"

definition unknown_controlled_gate_experiment :: qobj_experiment where
  "unknown_controlled_gate_experiment =
     \<lparr>header = entangle_header,
      instructions = [\<lparr>name = ''bfunc'', qubits = [], memory = [], conditional = None\<rparr>,
                      \<lparr>name = ''bla'', qubits = [1], memory = [], conditional = Some 17\<rparr>]\<rparr>"

text \<open>
  Sample jobs: the entangle circuit with 1024 shots; the same job with a second
  experiment that applies the gates after the measurements; and a job with no shots.
\<close>

definition good_qobj :: qobj where
  "good_qobj = \<lparr>config = \<lparr>shots = 1024\<rparr>, experiments = [entangle_experiment]\<rparr>"

definition late_gate_experiment :: qobj_experiment where
  "late_gate_experiment =
     \<lparr>header = entangle_header, instructions = entangle_measures @ entangle_instructions\<rparr>"

definition bad_qobj :: qobj where
  "bad_qobj =
     \<lparr>config = \<lparr>shots = 1024\<rparr>, experiments = [entangle_experiment, late_gate_experiment]\<rparr>"

definition no_shots_qobj :: qobj where
  "no_shots_qobj = \<lparr>config = \<lparr>shots = 0\<rparr>, experiments = [entangle_experiment]\<rparr>"

text \<open>
  A job whose second experiment declares no classical bit; its third experiment
  applies gates after the measurements.
\<close>

definition no_clbits_experiment :: qobj_experiment where
  "no_clbits_experiment =
     \<lparr>header = \<lparr>header_name = ''circuit2'', n_qubits = 2, memory_slots = 0, creg_sizes = []\<rparr>,
      instructions = entangle_measures @ entangle_instructions\<rparr>"

definition no_clbits_qobj :: qobj where
  "no_clbits_qobj =
     \<lparr>config = \<lparr>shots = 1024\<rparr>,
      experiments = [entangle_experiment, no_clbits_experiment, late_gate_experiment]\<rparr>"

section \<open>Properties of the measurement map\<close>

lemma measure_pairs_filter:
  "list_all (\<lambda>m. qubits m \<noteq> [] \<and> memory m \<noteq> []) (filter (\<lambda>m. name m = ''measure'') ms) \<Longrightarrow>
   measure_pairs nq nc ms =
     Inr (map (\<lambda>m. (nq - 1 - hd (qubits m), nc - 1 - hd (memory m)))
            (filter (\<lambda>m. name m = ''measure'') ms))"
proof (induction ms)
  case Nil
  show ?case by simp
next
  case (Cons m ms)
  show ?case
  proof (cases "name m = ''measure''")
    case True
    with Cons.prems obtain q qs b bs where
      qm: "qubits m = q # qs" and bm: "memory m = b # bs"
      by (cases "qubits m"; cases "memory m") auto
    from Cons True have "measure_pairs nq nc ms =
        Inr (map (\<lambda>m. (nq - 1 - hd (qubits m), nc - 1 - hd (memory m)))
               (filter (\<lambda>m. name m = ''measure'') ms))"
      by simp
    with True qm bm show ?thesis by simp
  next
    case False
    with Cons show ?thesis by simp
  qed
qed

text \<open>
  C6. When every measure instruction names a qubit and a classical bit,
  \<^verbatim>\<open>_collect_measurements\<close> returns one pair per measure instruction, in
  order, built from that instruction's first qubit and first classical bit; with no
  measure instruction it returns the pairs \<open>(i, i)\<close> for \<open>i\<close> from 0 up to the
  declared number of qubits, that number excluded; in both cases it returns the
  declared number of classical bits.
\<close>

theorem collect_measurements_map:
  assumes "\<forall>m \<in> set (instructions e). name m = ''measure'' \<longrightarrow> qubits m \<noteq> [] \<and> memory m \<noteq> []"
  shows "collect_measurements e =
     Inr \<lparr> measurements =
             (if filter (\<lambda>m. name m = ''measure'') (instructions e) = []
              then map (\<lambda>i. (int i, int i)) [0 ..< nat (n_qubits (header e))]
              else map (\<lambda>m. (n_qubits (header e) - 1 - hd (qubits m),
                              memory_slots (header e) - 1 - hd (memory m)))
                     (filter (\<lambda>m. name m = ''measure'') (instructions e))),
           number_of_clbits = memory_slots (header e) \<rparr>"
proof -
  from assms have
    "list_all (\<lambda>m. qubits m \<noteq> [] \<and> memory m \<noteq> [])
       (filter (\<lambda>m. name m = ''measure'') (instructions e))"
    by (simp add: list_all_iff)
  from measure_pairs_filter [OF this, of "n_qubits (header e)" "memory_slots (header e)"]
  show ?thesis
    by (simp add: collect_measurements_def py_range_def Let_def)
qed

theorem collect_measurements_map_witness:
  "collect_measurements entangle_experiment =
     Inr \<lparr>measurements = [(1, 1), (0, 0)], number_of_clbits = 2\<rparr> \<and>
   collect_measurements unmeasured_experiment =
     Inr \<lparr>measurements = [(0, 0), (1, 1)], number_of_clbits = 2\<rparr> \<and>
   collect_measurements five_qubit_experiment =
     Inr \<lparr>measurements = [(0, 0), (1, 1), (2, 2), (3, 3), (4, 4)], number_of_clbits = 3\<rparr>"
proof -
  have wf:
    "\<forall>m \<in> set (instructions entangle_experiment).
       name m = ''measure'' \<longrightarrow> qubits m \<noteq> [] \<and> memory m \<noteq> []"
    "\<forall>m \<in> set (instructions unmeasured_experiment).
       name m = ''measure'' \<longrightarrow> qubits m \<noteq> [] \<and> memory m \<noteq> []"
    "\<forall>m \<in> set (instructions five_qubit_experiment).
       name m = ''measure'' \<longrightarrow> qubits m \<noteq> [] \<and> memory m \<noteq> []"
    by (simp_all add: entangle_experiment_def unmeasured_experiment_def
        five_qubit_experiment_def entangle_instructions_def entangle_measures_def)
  have r: "[0 ..< 2] = [0, 1]" "[0 ..< 5] = [0, 1, 2, 3, 4]"
    by (simp_all add: upt_rec)
  from collect_measurements_map [OF wf(1)] have 1:
    "collect_measurements entangle_experiment =
       Inr \<lparr>measurements = [(1, 1), (0, 0)], number_of_clbits = 2\<rparr>"
    by (simp add: entangle_experiment_def entangle_instructions_def entangle_measures_def
        entangle_header_def)
  from collect_measurements_map [OF wf(2)] r have 2:
    "collect_measurements unmeasured_experiment =
       Inr \<lparr>measurements = [(0, 0), (1, 1)], number_of_clbits = 2\<rparr>"
    by (simp add: unmeasured_experiment_def entangle_instructions_def entangle_header_def)
  from collect_measurements_map [OF wf(3)] r have 3:
    "collect_measurements five_qubit_experiment =
       Inr \<lparr>measurements = [(0, 0), (1, 1), (2, 2), (3, 3), (4, 4)], number_of_clbits = 3\<rparr>"
    by (simp add: five_qubit_experiment_def entangle_instructions_def)
  from 1 2 3 show ?thesis by simp
qed

section \<open>Numbers and their strings\<close>

lemma digit_val_digit_char: "d < 16 \<Longrightarrow> digit_val (digit_char d) = Some d"
  by (auto simp add: digit_val_def digit_char_def Let_def)

lemma digits_val_append:
  "digits_val b acc (xs @ ys) =
     (case digits_val b acc xs of None \<Rightarrow> None | Some a \<Rightarrow> digits_val b a ys)"
  by (induction xs arbitrary: acc) (auto split: option.splits)

lemma digits_of_nonempty: "digits_of b n \<noteq> []"
  by (subst digits_of.simps) simp

lemma digits_val_digits_of:
  "2 \<le> b \<Longrightarrow> b \<le> 16 \<Longrightarrow> digits_val b 0 (digits_of b n) = Some n"
proof (induction b n rule: digits_of.induct)
  case (1 b n)
  show ?case
  proof (cases "n < b")
    case True
    with "1.prems" have "digit_val (digit_char n) = Some n"
      by (simp add: digit_val_digit_char)
    with True show ?thesis
      by (subst digits_of.simps) simp
  next
    case False
    with "1.prems" have ih: "digits_val b 0 (digits_of b (n div b)) = Some (n div b)"
      using "1.IH" by simp
    from "1.prems" have "n mod b < 16"
      by (meson less_le_trans mod_less_divisor pos2 less_le_trans [of 0 2 b])
    then have dv: "digit_val (digit_char (n mod b)) = Some (n mod b)"
      by (rule digit_val_digit_char)
    from "1.prems" have "n mod b < b" by simp
    with False "1.prems" ih dv show ?thesis
      by (subst digits_of.simps) (simp add: digits_val_append)
  qed
qed

lemma py_int_hex: "py_int 16 (hex v) = Inr v"
proof -
  have nz: "digits_of 16 n \<noteq> []" for n by (rule digits_of_nonempty)
  have dv: "digits_val 16 0 (digits_of 16 n) = Some n" for n
    by (rule digits_val_digits_of) simp_all
  show ?thesis
    by (simp add: py_int_def hex_def nz dv Let_def)
qed


section \<open>Keys of the histograms\<close>

lemma qubit_to_classical_hex_is_hex:
  "qubit_to_classical_hex reg ms nq = Inr k \<Longrightarrow> \<exists>v. k = hex v"
  by (auto simp add: qubit_to_classical_hex_def split: sum.splits)

lemma hex_keys_Nil: "hex_keys []"
  by (simp add: hex_keys_def)

lemma hex_keys_update: "hex_keys d \<Longrightarrow> hex_keys (AList.update (hex v) x d)"
  by (auto simp add: hex_keys_def distinct_update dom_update)

lemma add_probabilities_hex_keys:
  "add_probabilities ms nq items out = Inr out' \<Longrightarrow> hex_keys out \<Longrightarrow> hex_keys out'"
proof (induction items arbitrary: out)
  case Nil
  then show ?case by simp
next
  case (Cons a items)
  obtain reg p where a: "a = (reg, p)" by (cases a)
  from Cons.prems(1) a obtain k where
    k: "qubit_to_classical_hex reg ms nq = Inr k" and
    rest: "add_probabilities ms nq items (AList.update k (default_get out k + p) out) = Inr out'"
    by (auto split: sum.splits)
  from k obtain v where "k = hex v" by (auto dest: qubit_to_classical_hex_is_hex)
  with Cons.prems(2) have "hex_keys (AList.update k (default_get out k + p) out)"
    by (simp add: hex_keys_update)
  with rest show ?case by (rule Cons.IH)
qed



lemma sorted_by_hex_total: "hex_keys items \<Longrightarrow> \<exists>out. sorted_by_hex items = Inr out"
  by (auto simp add: sorted_by_hex_def hex_keys_def list_ex_iff py_int_hex)

section \<open>Mass and order of the histograms\<close>



lemma sorted_by_hex_mset: "sorted_by_hex items = Inr out \<Longrightarrow> mset out = mset items"
  by (auto simp add: sorted_by_hex_def split: if_splits)











lemma sorted_by_hex_map_of:
  assumes "sorted_by_hex items = Inr out" and "distinct (map fst items)"
  shows "map_of out = map_of items"
proof -
  from assms(1) have m: "mset out = mset items" by (rule sorted_by_hex_mset)
  then have "mset (map fst out) = mset (map fst items)" by simp
  with assms(2) have "distinct (map fst out)"
    using mset_eq_imp_distinct_iff [of "map fst out" "map fst items"] by blast
  moreover from m have "set out = set items" by (rule mset_eq_setD)
  ultimately show ?thesis
    using assms(2) by (simp add: map_of_inject_set)
qed










lemma digit_char_bin: "d < 2 \<Longrightarrow> digit_char d = CHR ''0'' \<or> digit_char d = CHR ''1''"
proof -
  assume "d < 2"
  then have "d = 0 \<or> d = 1" by auto
  moreover have "digit_char 0 = CHR ''0''" "digit_char 1 = CHR ''1''"
    by code_simp+
  ultimately show ?thesis by auto
qed

lemma digits_of_bin: "bin_string (digits_of 2 n)"
proof (induction "2 :: nat" n rule: digits_of.induct)
  case (1 n)
  show ?case
  proof (cases "n < 2")
    case True
    with digit_char_bin [of n] show ?thesis
      by (subst digits_of.simps) (auto simp add: bin_string_def)
  next
    case False
    with "1.hyps" have "bin_string (digits_of 2 (n div 2))" by simp
    moreover have "n mod 2 < 2" by simp
    ultimately show ?thesis
      using False digit_char_bin [of "n mod 2"]
      by (subst digits_of.simps) (auto simp add: bin_string_def)
  qed
qed

lemma zero_pad_bin: "bin_string s \<Longrightarrow> bin_string (zero_pad w s) \<and> w \<le> length (zero_pad w s)"
  by (auto simp add: bin_string_def zero_pad_def)

lemma format_bin_returns:
  "0 \<le> v \<Longrightarrow> 0 \<le> w \<Longrightarrow>
   \<exists>qs. format_bin v w = Inr qs \<and> bin_string qs \<and> nat w \<le> length qs"
  using zero_pad_bin [OF digits_of_bin, of "nat w" "nat v"]
  by (simp add: format_bin_def)

lemma py_index_in_range: "0 \<le> i \<Longrightarrow> i < int (length xs) \<Longrightarrow> py_index xs i = Inr (nat i)"
  by (simp add: py_index_def Let_def)

lemma assign_bits_returns:
  assumes "bin_string qs"
    and "list_all (\<lambda>qc. 0 \<le> fst qc \<and> fst qc < int (length qs) \<and>
                       0 \<le> snd qc \<and> snd qc < int (length cs)) ms"
    and "bin_string cs"
  shows "\<exists>cs'. assign_bits qs ms cs = Inr cs' \<and> bin_string cs' \<and> length cs' = length cs"
  using assms(2,3)
proof (induction ms arbitrary: cs)
  case Nil
  then show ?case by simp
next
  case (Cons a ms)
  obtain q c where a: "a = (q, c)" by (cases a)
  with Cons.prems(1) have
    q: "0 \<le> q" "q < int (length qs)" and c: "0 \<le> c" "c < int (length cs)"
    by simp_all
  from q assms(1) have "qs ! nat q \<in> {CHR ''0'', CHR ''1''}"
    unfolding bin_string_def by (metis nat_less_iff nth_mem subsetD)
  with Cons.prems(2) have b: "bin_string (cs[nat c := qs ! nat q])"
    unfolding bin_string_def using set_update_subset_insert [of cs "nat c" "qs ! nat q"] by blast
  from Cons.prems(1) have
    "list_all (\<lambda>qc. 0 \<le> fst qc \<and> fst qc < int (length qs) \<and>
                    0 \<le> snd qc \<and> snd qc < int (length (cs[nat c := qs ! nat q]))) ms"
    by simp
  from Cons.IH [OF this b] a q c show ?case
    by (simp add: py_index_in_range)
qed

lemma digit_val_bin: "digit_val CHR ''0'' = Some 0" "digit_val CHR ''1'' = Some 1"
  by (simp_all add: digit_val_def)

lemma digits_val_bin: "bin_string s \<Longrightarrow> \<exists>v. digits_val 2 acc s = Some v"
proof (induction s arbitrary: acc)
  case Nil
  then show ?case by simp
next
  case (Cons c s)
  then have "c = CHR ''0'' \<or> c = CHR ''1''" and "bin_string s"
    by (auto simp add: bin_string_def)
  with Cons.IH show ?case
    by (auto simp add: digit_val_bin)
qed

lemma py_int_bin:
  assumes "bin_string s" and "s \<noteq> []"
  shows "\<exists>v. py_int 2 s = Inr v"
proof -
  from assms obtain c t where s: "s = c # t" by (cases s) auto
  with assms(1) have c: "c = CHR ''0'' \<or> c = CHR ''1''"
    by (auto simp add: bin_string_def)
  then have sign: "strip_sign s = (False, s)" using s by auto
  have pre: "strip_prefix 2 s = s"
  proof (cases t)
    case Nil
    with s show ?thesis by simp
  next
    case (Cons d u)
    with s assms(1) have "d = CHR ''0'' \<or> d = CHR ''1''"
      by (auto simp add: bin_string_def)
    with s Cons show ?thesis by auto
  qed
  from digits_val_bin [OF assms(1), of 0] obtain v where "digits_val 2 0 s = Some v" ..
  with sign pre assms(2) show ?thesis
    by (simp add: py_int_def Let_def)
qed

lemma qubit_to_classical_hex_returns:
  assumes "0 \<le> reg" and "well_formed_map ms nq"
  shows "\<exists>k. qubit_to_classical_hex reg ms nq = Inr k"
proof -
  from assms(2) have nq: "0 \<le> nq" and nc: "1 \<le> number_of_clbits ms" and
    idx: "list_all (\<lambda>qc. 0 \<le> fst qc \<and> fst qc < nq \<and> 0 \<le> snd qc \<and> snd qc < number_of_clbits ms)
            (measurements ms)"
    by (simp_all add: well_formed_map_def)
  from format_bin_returns [OF assms(1) nq] obtain qs where
    qs: "format_bin reg nq = Inr qs" "bin_string qs" "nat nq \<le> length qs"
    by blast
  let ?cs = "replicate (nat (number_of_clbits ms)) CHR ''0''"
  have cs: "bin_string ?cs" by (auto simp add: bin_string_def)
  from idx qs(3) nc have
    "list_all (\<lambda>qc. 0 \<le> fst qc \<and> fst qc < int (length qs) \<and>
                    0 \<le> snd qc \<and> snd qc < int (length ?cs)) (measurements ms)"
    by (auto simp add: list_all_iff)
  from assign_bits_returns [OF qs(2) this cs] obtain cs' where
    cs': "assign_bits qs (measurements ms) ?cs = Inr cs'" "bin_string cs'" "length cs' = length ?cs"
    by blast
  from cs'(3) nc have "cs' \<noteq> []" by auto
  from py_int_bin [OF cs'(2) this] obtain v where "py_int 2 cs' = Inr v" ..
  with qs(1) cs'(1) show ?thesis
    by (simp add: qubit_to_classical_hex_def)
qed

lemma add_probabilities_returns:
  "registers_ok h \<Longrightarrow> well_formed_map ms nq \<Longrightarrow> \<exists>out'. add_probabilities ms nq h out = Inr out'"
proof (induction h arbitrary: out)
  case Nil
  show ?case by simp
next
  case (Cons a h)
  obtain reg p where a: "a = (reg, p)" by (cases a)
  with Cons.prems(1) have "0 \<le> reg" and r: "registers_ok h"
    by (simp_all add: registers_ok_def)
  from qubit_to_classical_hex_returns [OF this(1) Cons.prems(2)] obtain k where
    "qubit_to_classical_hex reg ms nq = Inr k" ..
  with Cons.IH [OF r Cons.prems(2)] a show ?case by simp
qed

text \<open>
  On a histogram of non-negative register values and a measurement map whose indices
  are in range, \<^verbatim>\<open>__convert_histogram\<close> returns a histogram.
\<close>

lemma full_state_histogram_returns:
  assumes "histogram r = Some h" and "registers_ok h" and "well_formed_map ms (number_of_qubits r)"
  shows "\<exists>out. full_state_histogram r ms = Inr out"
proof -
  from add_probabilities_returns [OF assms(2,3)] obtain acc where
    acc: "add_probabilities ms (number_of_qubits r) h [] = Inr acc" ..
  then have "hex_keys acc"
    by (rule add_probabilities_hex_keys) (rule hex_keys_Nil)
  from sorted_by_hex_total [OF this] acc assms(1) show ?thesis
    by (auto simp add: full_state_histogram_def)
qed







section \<open>Experiment results: fixed fields and the missing histogram\<close>

lemma py_index_error: "py_index xs i = Inl e \<Longrightarrow> e = IndexError"
  by (auto simp add: py_index_def Let_def split: if_splits)

lemma assign_bits_error: "assign_bits qs ms cs = Inl e \<Longrightarrow> e = IndexError"
proof (induction qs ms cs rule: assign_bits.induct)
  case (1 qubit_state classical_state)
  then show ?case by simp
next
  case (2 qubit_state q c ms classical_state)
  then show ?case
    by (auto split: sum.splits dest: py_index_error)
qed

lemma format_bin_error: "format_bin v w = Inl e \<Longrightarrow> e = ValueError"
  by (auto simp add: format_bin_def split: if_splits)

lemma py_int_error: "py_int b s = Inl e \<Longrightarrow> e = ValueError"
  by (auto simp add: py_int_def Let_def split: prod.splits if_splits option.splits)

lemma qubit_to_classical_hex_error:
  "qubit_to_classical_hex reg ms nq = Inl e \<Longrightarrow> e = IndexError \<or> e = ValueError"
  by (auto simp add: qubit_to_classical_hex_def split: sum.splits
      dest: format_bin_error assign_bits_error py_int_error)

lemma memory_of_error:
  "memory_of ms nq raw = Inl e \<Longrightarrow> e = IndexError \<or> e = ValueError"
proof (induction raw)
  case Nil
  then show ?case by simp
next
  case (Cons reg raw)
  then show ?case
    by (auto split: sum.splits dest: qubit_to_classical_hex_error)
qed

lemma add_probabilities_error:
  "add_probabilities ms nq items out = Inl e \<Longrightarrow> e = IndexError \<or> e = ValueError"
proof (induction items arbitrary: out)
  case Nil
  then show ?case by simp
next
  case (Cons a items)
  obtain reg p where "a = (reg, p)" by (cases a)
  with Cons show ?case
    by (auto split: sum.splits dest: qubit_to_classical_hex_error)
qed

lemma sorted_by_hex_error: "sorted_by_hex items = Inl e \<Longrightarrow> e = ValueError"
  by (auto simp add: sorted_by_hex_def split: if_splits)

lemma full_state_histogram_error:
  "full_state_histogram r ms = Inl e \<Longrightarrow> e = IndexError \<or> e = ValueError \<or> e = KeyError"
  by (auto simp add: full_state_histogram_def split: option.splits sum.splits
      dest: add_probabilities_error sorted_by_hex_error)

lemma histogram_and_memory_error:
  "histogram_and_memory r ms raw prob = Inl e \<Longrightarrow> e = IndexError \<or> e = ValueError \<or> e = KeyError"
  by (auto simp add: histogram_and_memory_def split: option.splits sum.splits if_splits prod.splits
      dest: memory_of_error sorted_by_hex_error qubit_to_classical_hex_error)

lemma convert_histogram_error:
  "convert_histogram from_dict r ms = Inl e \<Longrightarrow> e = IndexError \<or> e = ValueError \<or> e = KeyError"
  by (auto simp add: convert_histogram_def split: sum.splits dest: full_state_histogram_error)

lemma convert_result_data_error:
  "convert_result_data from_dict r ms raw prob = Inl e \<Longrightarrow>
   e = IndexError \<or> e = ValueError \<or> e = KeyError"
  by (auto simp add: convert_result_data_def split: sum.splits prod.splits
      dest: histogram_and_memory_error)

lemma no_histogram_iff:
  "no_histogram r \<longleftrightarrow> histogram r = None \<or> histogram r = Some []"
  by (simp add: no_histogram_def split: option.splits)

lemma no_histogram_message_text:
  "no_histogram_message r =
     ''Result from backend contains no histogram data!'' @ [CHR 0x0A] @
       (case raw_text r of None \<Rightarrow> ''None'' | Some t \<Rightarrow> t)"
  by (simp add: no_histogram_message_def nl_def format_text_def)

lemma experiment_result_of_no_histogram:
  "histogram (fetched_result f) = None \<or> histogram (fetched_result f) = Some [] \<Longrightarrow>
   experiment_result_of fc fp f =
     Inl (QisKitBackendError (no_histogram_message (fetched_result f)))"
  by (simp add: experiment_result_of_def Let_def no_histogram_iff)

lemma experiment_result_of_histogram:
  assumes "histogram (fetched_result f) = Some h" and "h \<noteq> []"
  shows "experiment_result_of fc fp f \<noteq> Inl (QisKitBackendError m)"
proof
  assume "experiment_result_of fc fp f = Inl (QisKitBackendError m)"
  with assms have
    "convert_result_data fc (fetched_result f) (ud_measurements (job_user_data (fetched_job f)))
       (raw_data f) (rand f) = Inl (QisKitBackendError m) \<or>
     convert_histogram fp (fetched_result f) (ud_measurements (job_user_data (fetched_job f))) =
       Inl (QisKitBackendError m)"
    by (auto simp add: experiment_result_of_def Let_def no_histogram_iff
        split: sum.splits prod.splits)
  then show False
    by (auto dest: convert_result_data_error convert_histogram_error)
qed

lemma experiment_result_of_backend_error:
  assumes "experiment_result_of fc fp f = Inl (QisKitBackendError m)"
  shows "(histogram (fetched_result f) = None \<or> histogram (fetched_result f) = Some []) \<and>
         m = no_histogram_message (fetched_result f)"
proof -
  have nh: "histogram (fetched_result f) = None \<or> histogram (fetched_result f) = Some []"
  proof (cases "histogram (fetched_result f)")
    case None
    then show ?thesis by simp
  next
    case (Some h)
    with assms experiment_result_of_histogram [of f h fc fp m] show ?thesis
      by (cases "h = []") auto
  qed
  from experiment_result_of_no_histogram [OF nh, of fc fp] assms nh show ?thesis
    by simp
qed

lemma get_experiment_results_first_error:
  assumes "list_all (\<lambda>g. \<exists>x. experiment_result_of fc fp g = Inr x) pre"
    and "experiment_result_of fc fp f = Inl e"
  shows "get_experiment_results fc fp (pre @ f # post) = Inl e"
  using assms by (induction pre) auto

lemma get_experiment_results_backend_error:
  "get_experiment_results fc fp fs = Inl (QisKitBackendError m) \<Longrightarrow>
   \<exists>f \<in> set fs.
     (histogram (fetched_result f) = None \<or> histogram (fetched_result f) = Some []) \<and>
     m = no_histogram_message (fetched_result f)"
proof (induction fs)
  case Nil
  then show ?case by simp
next
  case (Cons f fs)
  show ?case
  proof (cases "experiment_result_of fc fp f")
    case (Inl e)
    with Cons.prems have "experiment_result_of fc fp f = Inl (QisKitBackendError m)" by simp
    from experiment_result_of_backend_error [OF this] show ?thesis by simp
  next
    case (Inr x)
    with Cons.prems have "get_experiment_results fc fp fs = Inl (QisKitBackendError m)"
      by (auto split: sum.splits)
    from Cons.IH [OF this] show ?thesis by auto
  qed
qed

text \<open>
  C10. Every experiment result that \<^verbatim>\<open>get_experiment_results\<close> returns has
  \<^verbatim>\<open>success = True\<close>, \<^verbatim>\<open>status = 'DONE'\<close> and \<^verbatim>\<open>seed = 42\<close>,
  whatever the result records hold; the name and the shots are the job's and the time
  taken is the result's.
\<close>

theorem get_experiment_results_fixed_fields:
  "get_experiment_results fc fp fs = Inr rs \<Longrightarrow>
   list_all (\<lambda>x. success x \<and> status x = ''DONE'' \<and> seed x = 42) rs \<and>
   map result_name rs = map (\<lambda>f. job_name (fetched_job f)) fs \<and>
   map result_shots rs = map (\<lambda>f. number_of_shots (fetched_job f)) fs \<and>
   map time_taken rs = map (\<lambda>f. execution_time_in_seconds (fetched_result f)) fs"
proof (induction fs arbitrary: rs)
  case Nil
  then show ?case by simp
next
  case (Cons f fs)
  from Cons.prems obtain x xs where
    x: "experiment_result_of fc fp f = Inr x" and
    xs: "get_experiment_results fc fp fs = Inr xs" and
    rs: "rs = x # xs"
    by (auto split: sum.splits)
  from x have "success x \<and> status x = ''DONE'' \<and> seed x = 42 \<and>
      result_name x = job_name (fetched_job f) \<and>
      result_shots x = number_of_shots (fetched_job f) \<and>
      time_taken x = execution_time_in_seconds (fetched_result f)"
    by (auto simp add: experiment_result_of_def Let_def split: if_splits sum.splits prod.splits)
  with Cons.IH [OF xs] rs show ?case by simp
qed

theorem get_experiment_results_fixed_fields_witness:
  "get_experiment_results (\<lambda>d. d) (\<lambda>d. d) [sample_fetched, sample_fetched] =
     Inr [sample_experiment_result, sample_experiment_result] \<and>
   list_all (\<lambda>x. success x \<and> status x = ''DONE'' \<and> seed x = 42)
     [sample_experiment_result, sample_experiment_result] \<and>
   map result_name [sample_experiment_result, sample_experiment_result] =
     [''circuit0'', ''circuit0'']"
proof -
  have e: "get_experiment_results (\<lambda>d. d) (\<lambda>d. d) [sample_fetched, sample_fetched] =
     Inr [sample_experiment_result, sample_experiment_result]"
    by code_simp
  from get_experiment_results_fixed_fields [OF e] e show ?thesis
    by (simp add: sample_fetched_def sample_job_def)
qed

text \<open>
  C5. A job whose result has no histogram, or an empty one, makes the loop body of
  \<^verbatim>\<open>get_experiment_results\<close> raise \<^verbatim>\<open>QisKitBackendError\<close> with the message
  \<^verbatim>\<open>Result from backend contains no histogram data!\<close>, a newline and the result's
  \<^verbatim>\<open>raw_text\<close> (\<^verbatim>\<open>None\<close> when the result has none); when the jobs before it
  are processed without an exception this is what \<^verbatim>\<open>get_experiment_results\<close>
  raises, and it returns no results. A result with a non-empty histogram never raises
  this error, and whenever \<^verbatim>\<open>get_experiment_results\<close> raises a
  \<^verbatim>\<open>QisKitBackendError\<close>, some job has no histogram, or an empty one, and the
  message is the one of that job.
\<close>

theorem missing_histogram_error:
  "((histogram (fetched_result f) = None \<or> histogram (fetched_result f) = Some []) \<longrightarrow>
      experiment_result_of fc fp f =
        Inl (QisKitBackendError (''Result from backend contains no histogram data!'' @ [CHR 0x0A] @
               (case raw_text (fetched_result f) of None \<Rightarrow> ''None'' | Some t \<Rightarrow> t))) \<and>
      (list_all (\<lambda>g. \<exists>x. experiment_result_of fc fp g = Inr x) pre \<longrightarrow>
         get_experiment_results fc fp (pre @ f # post) =
           Inl (QisKitBackendError (''Result from backend contains no histogram data!'' @ [CHR 0x0A] @
               (case raw_text (fetched_result f) of None \<Rightarrow> ''None'' | Some t \<Rightarrow> t))))) \<and>
   ((\<exists>h. histogram (fetched_result f) = Some h \<and> h \<noteq> []) \<longrightarrow>
      (\<forall>m. experiment_result_of fc fp f \<noteq> Inl (QisKitBackendError m))) \<and>
   (\<forall>m. get_experiment_results fc fp fs = Inl (QisKitBackendError m) \<longrightarrow>
      (\<exists>g \<in> set fs.
         (histogram (fetched_result g) = None \<or> histogram (fetched_result g) = Some []) \<and>
         m = ''Result from backend contains no histogram data!'' @ [CHR 0x0A] @
               (case raw_text (fetched_result g) of None \<Rightarrow> ''None'' | Some t \<Rightarrow> t)))"
proof (intro conjI impI allI)
  assume nh: "histogram (fetched_result f) = None \<or> histogram (fetched_result f) = Some []"
  from experiment_result_of_no_histogram [OF nh, of fc fp]
  show body: "experiment_result_of fc fp f =
      Inl (QisKitBackendError (''Result from backend contains no histogram data!'' @ [CHR 0x0A] @
               (case raw_text (fetched_result f) of None \<Rightarrow> ''None'' | Some t \<Rightarrow> t)))"
    by (simp add: no_histogram_message_text)
  assume "list_all (\<lambda>g. \<exists>x. experiment_result_of fc fp g = Inr x) pre"
  from get_experiment_results_first_error [OF this body]
  show "get_experiment_results fc fp (pre @ f # post) =
      Inl (QisKitBackendError (''Result from backend contains no histogram data!'' @ [CHR 0x0A] @
               (case raw_text (fetched_result f) of None \<Rightarrow> ''None'' | Some t \<Rightarrow> t)))" .
next
  fix m assume "\<exists>h. histogram (fetched_result f) = Some h \<and> h \<noteq> []"
  then show "experiment_result_of fc fp f \<noteq> Inl (QisKitBackendError m)"
    by (auto dest: experiment_result_of_histogram)
next
  fix m assume "get_experiment_results fc fp fs = Inl (QisKitBackendError m)"
  from get_experiment_results_backend_error [OF this]
  show "\<exists>g \<in> set fs.
      (histogram (fetched_result g) = None \<or> histogram (fetched_result g) = Some []) \<and>
      m = ''Result from backend contains no histogram data!'' @ [CHR 0x0A] @
               (case raw_text (fetched_result g) of None \<Rightarrow> ''None'' | Some t \<Rightarrow> t)"
    by (simp add: no_histogram_message_text)
qed

theorem missing_histogram_error_witness:
  "histogram (fetched_result failed_fetched) = Some [] \<and>
   experiment_result_of (\<lambda>d. d) (\<lambda>d. d) sample_fetched = Inr sample_experiment_result \<and>
   get_experiment_results (\<lambda>d. d) (\<lambda>d. d) ([sample_fetched] @ failed_fetched # [sample_fetched]) =
     Inl (QisKitBackendError (''Result from backend contains no histogram data!'' @ [CHR 0x0A] @
            ''Error: qubit index out of range'')) \<and>
   histogram (fetched_result missing_fetched) = None \<and>
   experiment_result_of (\<lambda>d. d) (\<lambda>d. d) missing_fetched =
     Inl (QisKitBackendError (''Result from backend contains no histogram data!'' @ [CHR 0x0A] @
            ''None'')) \<and>
   histogram (fetched_result sample_fetched) = Some [(0, 1 / 4), (3, 1 / 2), (1, 1 / 4)] \<and>
   experiment_result_of (\<lambda>d. d) (\<lambda>d. d) sample_fetched \<noteq> Inl (QisKitBackendError [])"
proof -
  have e: "histogram (fetched_result failed_fetched) = Some []"
    "raw_text (fetched_result failed_fetched) = Some ''Error: qubit index out of range''"
    by (simp_all add: failed_fetched_def failed_result_def)
  have n: "histogram (fetched_result missing_fetched) = None"
    "raw_text (fetched_result missing_fetched) = None"
    by (simp_all add: missing_fetched_def missing_result_def)
  have ok: "experiment_result_of (\<lambda>d. d) (\<lambda>d. d) sample_fetched = Inr sample_experiment_result"
    by code_simp
  have h: "histogram (fetched_result sample_fetched) = Some [(0, 1 / 4), (3, 1 / 2), (1, 1 / 4)]"
    by (simp add: sample_fetched_def sample_result_def)
  from missing_histogram_error
    [of failed_fetched "\<lambda>d. d" "\<lambda>d. d" "[sample_fetched]" "[sample_fetched]"] e ok
  have 1: "get_experiment_results (\<lambda>d. d) (\<lambda>d. d)
      ([sample_fetched] @ failed_fetched # [sample_fetched]) =
     Inl (QisKitBackendError (''Result from backend contains no histogram data!'' @ [CHR 0x0A] @
            ''Error: qubit index out of range''))"
    by simp
  from missing_histogram_error [of missing_fetched "\<lambda>d. d" "\<lambda>d. d"] n
  have 2: "experiment_result_of (\<lambda>d. d) (\<lambda>d. d) missing_fetched =
     Inl (QisKitBackendError (''Result from backend contains no histogram data!'' @ [CHR 0x0A] @
            ''None''))"
    by simp
  from missing_histogram_error [of sample_fetched "\<lambda>d. d" "\<lambda>d. d"] h
  have 3: "experiment_result_of (\<lambda>d. d) (\<lambda>d. d) sample_fetched \<noteq> Inl (QisKitBackendError [])"
    by simp
  from e(1) n(1) ok h 1 2 3 show ?thesis by simp
qed

section \<open>The generated cQASM\<close>

lemma write_instructions_statements:
  "write_instructions parser s ins stream =
     (case statements parser s ins of
        Inl err \<Rightarrow> Inl err
      | Inr ls \<Rightarrow> Inr (stream @ concat ls))"
proof (induction ins arbitrary: s stream)
  case Nil
  show ?case by simp
next
  case (Cons i ins)
  show ?case
  proof (cases "parser s (CHR ''_'' # lower (name i)) i")
    case (Inl e)
    then show ?thesis by simp
  next
    case (Inr r)
    obtain line s' where r: "r = (line, s')" by (cases r)
    show ?thesis
      using Inr r Cons.IH [of s']
      by (cases line; cases "statements parser s' ins") simp_all
  qed
qed

lemma statements_append_error:
  assumes "statements parser s pre = Inr ls"
    and "parser (parser_state parser s pre) (CHR ''_'' # lower (name i)) i = Inl err"
  shows "statements parser s (pre @ i # post) = Inl err"
  using assms
proof (induction pre arbitrary: s ls)
  case Nil
  then show ?case by simp
next
  case (Cons a pre)
  from Cons.prems(1) obtain line s' ls' where
    a: "parser s (CHR ''_'' # lower (name a)) a = Inr (line, s')" and
    r: "statements parser s' pre = Inr ls'"
    by (auto split: sum.splits)
  from Cons.prems(2) a have "parser (parser_state parser s' pre) (CHR ''_'' # lower (name i)) i = Inl err"
    by simp
  from Cons.IH [OF r this] a show ?case by simp
qed

lemma digit_char_not_minus: "d < 16 \<Longrightarrow> digit_char d \<noteq> CHR ''-''"
proof
  assume "d < 16" and "digit_char d = CHR ''-''"
  then have "digit_val CHR ''-'' = Some d"
    using digit_val_digit_char [of d] by simp
  then show False by (simp add: digit_val_def)
qed

lemma digits_of_not_minus:
  "2 \<le> b \<Longrightarrow> b \<le> 16 \<Longrightarrow> hd (digits_of b n) \<noteq> CHR ''-''"
proof (induction b n rule: digits_of.induct)
  case (1 b n)
  show ?case
  proof (cases "n < b")
    case True
    with "1.prems" have "digit_char n \<noteq> CHR ''-''"
      by (simp add: digit_char_not_minus)
    with True show ?thesis
      by (subst digits_of.simps) simp
  next
    case False
    with "1.prems" "1.IH" have "hd (digits_of b (n div b)) \<noteq> CHR ''-''"
      by simp
    with False "1.prems" digits_of_nonempty [of b "n div b"] show ?thesis
      by (subst digits_of.simps) simp
  qed
qed

lemma str_int_decimal: "py_int 10 (str_int n) = Inr n"
proof -
  have nz: "digits_of 10 k \<noteq> []" for k by (rule digits_of_nonempty)
  have dv: "digits_val 10 0 (digits_of 10 k) = Some k" for k
    by (rule digits_val_digits_of) simp_all
  have sp: "strip_prefix 10 s = s" for s
    by (cases "(10::nat, s)" rule: strip_prefix.cases) simp_all
  have hd: "hd (digits_of 10 k) \<noteq> CHR ''-''" for k
    by (rule digits_of_not_minus) simp_all
  have ss: "strip_sign (digits_of 10 k) = (False, digits_of 10 k)" for k
    using nz [of k] hd [of k] by (cases "digits_of 10 k") auto
  show ?thesis
    by (simp add: py_int_def str_int_def nz dv sp ss Let_def)
qed

text \<open>
  C8. The text of \<^verbatim>\<open>_generate_cqasm\<close> is the three header lines
  \<^verbatim>\<open>version 1.0\<close>, \<^verbatim>\<open># cQASM generated by QI backend for Qiskit\<close> and
  \<^verbatim>\<open>qubits n\<close>, each ended by a newline and \<open>n\<close> in decimal, followed by the
  statements emitted for the instructions, in order, and nothing else; it raises what
  the translation of the instructions raises.
\<close>

theorem generate_cqasm_text:
  "generate_cqasm parser s0 e =
     (case statements parser s0 (instructions e) of
        Inl err \<Rightarrow> Inl err
      | Inr ls \<Rightarrow>
          Inr (''version 1.0'' @ [nl] @
               ''# cQASM generated by QI backend for Qiskit'' @ [nl] @
               ''qubits '' @ str_int (n_qubits (header e)) @ [nl] @
               concat ls)) \<and>
   py_int 10 (str_int (n_qubits (header e))) = Inr (n_qubits (header e))"
  by (simp add: generate_cqasm_def cqasm_header_def write_instructions_statements
      str_int_decimal split: sum.splits)

theorem generate_cqasm_text_witness:
  "generate_cqasm (getattr_call sample_gates) () entangle_experiment =
     Inr (''version 1.0'' @ [nl] @
          ''# cQASM generated by QI backend for Qiskit'' @ [nl] @
          ''qubits 2'' @ [nl] @
          ''H q[0]'' @ [nl] @
          ''CNOT q[0], q[1]'' @ [nl])"
proof -
  have st: "statements (getattr_call sample_gates) () (instructions entangle_experiment) =
      Inr [''H q[0]'' @ [nl], ''CNOT q[0], q[1]'' @ [nl]]"
    by code_simp
  have n: "str_int (n_qubits (header entangle_experiment)) = ''2''"
    by code_simp
  from generate_cqasm_text [of "getattr_call sample_gates" "()" entangle_experiment] st n
  show ?thesis by simp
qed

text \<open>
  An instruction whose method the parser does not have ends \<^verbatim>\<open>_generate_cqasm\<close>
  with the \<^verbatim>\<open>AttributeError\<close> of the lookup, whether or not the instruction
  carries a condition, once the instructions before it are translated.
\<close>

lemma unknown_method_raises:
  assumes "instructions e = pre @ i # post"
    and "statements (getattr_call methods) s0 pre = Inr ls"
    and "methods (CHR ''_'' # lower (name i)) = None"
  shows "generate_cqasm (getattr_call methods) s0 e =
     Inl (AttributeError (CHR ''_'' # lower (name i)))"
proof -
  from assms(3) have "getattr_call methods (parser_state (getattr_call methods) s0 pre)
      (CHR ''_'' # lower (name i)) i = Inl (AttributeError (CHR ''_'' # lower (name i)))"
    by (simp add: getattr_call_def)
  from statements_append_error [OF assms(2) this, of post] assms(1)
  have "statements (getattr_call methods) s0 (instructions e) =
      Inl (AttributeError (CHR ''_'' # lower (name i)))"
    by simp
  then show ?thesis
    by (simp add: generate_cqasm_def write_instructions_statements)
qed

text \<open>
  C7. For the instructions of \<^verbatim>\<open>test_generate_cqasm_correct_output_unknown_gate\<close>
  and of \<^verbatim>\<open>test_generate_cqasm_correct_output_unknown_controlled_gate\<close>, with a
  parser that has no method \<^verbatim>\<open>_bla\<close>, \<^verbatim>\<open>_generate_cqasm\<close> raises the
  \<^verbatim>\<open>AttributeError\<close> of \<^verbatim>\<open>getattr\<close> for the attribute \<^verbatim>\<open>_bla\<close>,
  the same with and without the condition.
\<close>

theorem unknown_gate_attribute_error:
  "generate_cqasm (getattr_call sample_gates) () unknown_gate_experiment =
     Inl (AttributeError ''_bla'') \<and>
   generate_cqasm (getattr_call sample_gates) () unknown_controlled_gate_experiment =
     Inl (AttributeError ''_bla'')"
  by code_simp

section \<open>Validation\<close>

lemma check_qubits_measure: "check_qubits ''measure'' qs M = Inr (M @ qs)"
  by (induction qs arbitrary: M) simp_all

lemma check_qubits_other:
  "nm \<noteq> ''measure'' \<Longrightarrow>
   check_qubits nm qs M =
     (if set qs \<inter> set M \<noteq> {} then Inl (QisKitBackendError ''Operation after measurement!'')
      else Inr M)"
  by (induction qs) auto

lemma after_measured_Nil: "\<not> after_measured S []"
  by (simp add: after_measured_def)

lemma after_measured_Cons:
  "after_measured S (a # ins) \<longleftrightarrow>
     (name a \<noteq> ''measure'' \<and> set (qubits a) \<inter> S \<noteq> {}) \<or>
     after_measured (if name a = ''measure'' then S \<union> set (qubits a) else S) ins"
  (is "?L \<longleftrightarrow> ?A \<or> ?B")
proof
  assume ?L
  then obtain pre op post where
    d: "a # ins = pre @ op # post" and op: "name op \<noteq> ''measure''" and
    q: "set (qubits op) \<inter> (S \<union> (\<Union>m \<in> {m \<in> set pre. name m = ''measure''}. set (qubits m))) \<noteq> {}"
    unfolding after_measured_def by blast
  show "?A \<or> ?B"
  proof (cases pre)
    case Nil
    with d op q show ?thesis by auto
  next
    case (Cons b pre')
    with d have ba: "b = a" and ins: "ins = pre' @ op # post" by simp_all
    from q Cons ba have
      "set (qubits op) \<inter> ((if name a = ''measure'' then S \<union> set (qubits a) else S) \<union>
         (\<Union>m \<in> {m \<in> set pre'. name m = ''measure''}. set (qubits m))) \<noteq> {}"
      by auto
    with ins op have ?B unfolding after_measured_def by blast
    then show ?thesis ..
  qed
next
  assume "?A \<or> ?B"
  then show ?L
  proof
    assume ?A
    then have "a # ins = [] @ a # ins \<and> name a \<noteq> ''measure'' \<and>
      set (qubits a) \<inter> (S \<union> (\<Union>m \<in> {m \<in> set []. name m = ''measure''}. set (qubits m))) \<noteq> {}"
      by auto
    then show ?L unfolding after_measured_def by blast
  next
    assume ?B
    then obtain pre op post where
      ins: "ins = pre @ op # post" and op: "name op \<noteq> ''measure''" and
      q: "set (qubits op) \<inter> ((if name a = ''measure'' then S \<union> set (qubits a) else S) \<union>
         (\<Union>m \<in> {m \<in> set pre. name m = ''measure''}. set (qubits m))) \<noteq> {}"
      unfolding after_measured_def by blast
    from q have "set (qubits op) \<inter> (S \<union>
         (\<Union>m \<in> {m \<in> set (a # pre). name m = ''measure''}. set (qubits m))) \<noteq> {}"
      by (auto split: if_splits)
    moreover from ins have "a # ins = (a # pre) @ op # post" by simp
    ultimately show ?L using op unfolding after_measured_def by blast
  qed
qed

lemma check_instructions_after_measured:
  "check_instructions ins M =
     (if after_measured (set M) ins
      then Inl (QisKitBackendError ''Operation after measurement!'') else Inr ())"
proof (induction ins arbitrary: M)
  case Nil
  show ?case by (simp add: after_measured_Nil)
next
  case (Cons a ins)
  show ?case
  proof (cases "name a = ''measure''")
    case True
    then show ?thesis
      by (simp add: check_qubits_measure Cons.IH after_measured_Cons)
  next
    case False
    then show ?thesis
      by (simp add: check_qubits_other Cons.IH after_measured_Cons)
  qed
qed

lemma operation_after_measurement_iff:
  "operation_after_measurement ins \<longleftrightarrow> after_measured {} ins"
  unfolding operation_after_measurement_def after_measured_def
  by (simp add: ex_in_conv [symmetric] Int_Un_distrib del: ex_in_conv) blast

lemma validate_no_gates_after_measure_iff:
  "validate_no_gates_after_measure e =
     (if operation_after_measurement (instructions e)
      then Inl (QisKitBackendError ''Operation after measurement!'') else Inr ())"
  by (simp add: validate_no_gates_after_measure_def check_instructions_after_measured
      operation_after_measurement_iff)

lemma validate_experiments_ok:
  "validate_experiments es = Inr () \<longleftrightarrow> \<not> list_ex invalid_experiment es"
  by (induction es)
    (auto simp add: validate_number_of_clbits_def validate_no_gates_after_measure_iff
      invalid_experiment_def Let_def)

lemma validate_experiments_error:
  "validate_experiments es = Inl err \<Longrightarrow>
   err = QisKitBackendError ''Operation after measurement!'' \<or>
   (\<exists>e \<in> set es. err = QisKitBackendError
      (''Invalid amount of classical bits ('' @ str_int (memory_slots (header e)) @ '')!''))"
proof (induction es)
  case Nil
  then show ?case by simp
next
  case (Cons e es)
  then show ?case
    by (auto simp add: validate_number_of_clbits_def validate_no_gates_after_measure_iff Let_def
        split: if_splits)
qed

lemma validate_ok: "validate q = Inr () \<longleftrightarrow> \<not> invalid_qobj q"
  by (simp add: validate_def validate_number_of_shots_def invalid_qobj_def Let_def
      validate_experiments_ok)

lemma validate_error:
  assumes "validate q = Inl err"
  shows "\<exists>msg. err = QisKitBackendError msg \<and> msg \<in> validation_messages q"
proof (cases "shots (config q) < 1")
  case True
  with assms show ?thesis
    by (auto simp add: validate_def validate_number_of_shots_def validation_messages_def Let_def)
next
  case False
  with assms have "validate_experiments (experiments q) = Inl err"
    by (simp add: validate_def validate_number_of_shots_def Let_def)
  from validate_experiments_error [OF this] show ?thesis
    by (auto simp add: validation_messages_def)
qed

lemma validate_shots:
  "shots (config q) < 1 \<Longrightarrow>
   validate q = Inl (QisKitBackendError
     (''Invalid shots (number_of_shots='' @ str_int (shots (config q)) @ '')''))"
  by (simp add: validate_def validate_number_of_shots_def Let_def)

lemma validate_experiments_first_invalid:
  "\<not> list_ex invalid_experiment pre \<Longrightarrow>
   validate_experiments (pre @ e # post) =
     (if memory_slots (header e) < 1
      then Inl (QisKitBackendError
             (''Invalid amount of classical bits ('' @ str_int (memory_slots (header e)) @ '')!''))
      else if operation_after_measurement (instructions e)
      then Inl (QisKitBackendError ''Operation after measurement!'')
      else validate_experiments post)"
  by (induction pre)
    (auto simp add: validate_number_of_clbits_def validate_no_gates_after_measure_iff
      invalid_experiment_def Let_def)

lemma validate_first_invalid:
  assumes "1 \<le> shots (config q)" and "experiments q = pre @ e # post"
    and "\<not> list_ex invalid_experiment pre"
  shows "validate q =
     (if memory_slots (header e) < 1
      then Inl (QisKitBackendError
             (''Invalid amount of classical bits ('' @ str_int (memory_slots (header e)) @ '')!''))
      else if operation_after_measurement (instructions e)
      then Inl (QisKitBackendError ''Operation after measurement!'')
      else validate_experiments post)"
  using assms(1,2) validate_experiments_first_invalid [OF assms(3), of e post]
  by (simp add: validate_def validate_number_of_shots_def Let_def)

text \<open>
  C9. The validation accepts a job exactly when it has at least one shot, every
  experiment has at least one classical bit, and in no experiment an instruction other
  than a measurement acts on a qubit that an earlier measure instruction names.
  Otherwise it raises \<^verbatim>\<open>QisKitBackendError\<close>: with the message
  \<^verbatim>\<open>Invalid shots\<close> and the number when there is no shot; else, at the first
  experiment that is not accepted, with \<^verbatim>\<open>Invalid amount of classical bits\<close> and
  the number when that experiment has no classical bit, and with
  \<^verbatim>\<open>Operation after measurement!\<close> when it has one. \<^verbatim>\<open>run\<close> raises the same
  error before it makes any call to the platform; for a job that is accepted, the
  first call of \<^verbatim>\<open>run\<close> creates the project. The numbers are in decimal.
\<close>

theorem validate_rejects_exactly:
  "(validate q = Inr () \<longleftrightarrow> \<not> invalid_qobj q) \<and>
   (validate q = Inr () \<longleftrightarrow>
      1 \<le> shots (config q) \<and>
      (\<forall>x \<in> set (experiments q).
         1 \<le> memory_slots (header x) \<and> \<not> operation_after_measurement (instructions x))) \<and>
   (\<forall>err. validate q = Inl err \<longrightarrow>
      (\<exists>msg. err = QisKitBackendError msg \<and> msg \<in> validation_messages q) \<and>
      run parser s0 identifier project_id q = ([], Inl err)) \<and>
   (shots (config q) < 1 \<longrightarrow>
      validate q = Inl (QisKitBackendError
        (''Invalid shots (number_of_shots='' @ str_int (shots (config q)) @ '')''))) \<and>
   (1 \<le> shots (config q) \<and> experiments q = pre @ e # post \<and>
    (\<forall>x \<in> set pre.
       1 \<le> memory_slots (header x) \<and> \<not> operation_after_measurement (instructions x)) \<and>
    memory_slots (header e) < 1 \<longrightarrow>
      validate q = Inl (QisKitBackendError
        (''Invalid amount of classical bits ('' @ str_int (memory_slots (header e)) @ '')!''))) \<and>
   (1 \<le> shots (config q) \<and> experiments q = pre @ e # post \<and>
    (\<forall>x \<in> set pre.
       1 \<le> memory_slots (header x) \<and> \<not> operation_after_measurement (instructions x)) \<and>
    1 \<le> memory_slots (header e) \<and> operation_after_measurement (instructions e) \<longrightarrow>
      validate q = Inl (QisKitBackendError ''Operation after measurement!'')) \<and>
   (validate q = Inr () \<longrightarrow>
      (\<exists>calls r. run parser s0 identifier project_id q =
         (Create_project (''qi-sdk-project-'' @ identifier) (shots (config q)) # calls, r))) \<and>
   py_int 10 (str_int n) = Inr n"
proof -
  have valid_pre: "\<not> list_ex invalid_experiment xs"
    if "\<forall>x \<in> set xs.
       1 \<le> memory_slots (header x) \<and> \<not> operation_after_measurement (instructions x)" for xs
    using that by (auto simp add: list_ex_iff invalid_experiment_def)
  show ?thesis
  proof (intro conjI allI impI)
    show "validate q = Inr () \<longleftrightarrow> \<not> invalid_qobj q" by (rule validate_ok)
  next
    show "validate q = Inr () \<longleftrightarrow>
      1 \<le> shots (config q) \<and>
      (\<forall>x \<in> set (experiments q).
         1 \<le> memory_slots (header x) \<and> \<not> operation_after_measurement (instructions x))"
      by (auto simp add: validate_ok invalid_qobj_def invalid_experiment_def list_ex_iff)
  next
    fix err assume "validate q = Inl err"
    then show "\<exists>msg. err = QisKitBackendError msg \<and> msg \<in> validation_messages q"
      by (rule validate_error)
  next
    fix err assume "validate q = Inl err"
    then show "run parser s0 identifier project_id q = ([], Inl err)"
      by (simp add: run_def)
  next
    assume "shots (config q) < 1"
    then show "validate q = Inl (QisKitBackendError
          (''Invalid shots (number_of_shots='' @ str_int (shots (config q)) @ '')''))"
      by (rule validate_shots)
  next
    assume a: "1 \<le> shots (config q) \<and> experiments q = pre @ e # post \<and>
      (\<forall>x \<in> set pre.
         1 \<le> memory_slots (header x) \<and> \<not> operation_after_measurement (instructions x)) \<and>
      memory_slots (header e) < 1"
    then have "\<not> list_ex invalid_experiment pre" by (simp add: valid_pre)
    with a validate_first_invalid [of q pre e post]
    show "validate q = Inl (QisKitBackendError
        (''Invalid amount of classical bits ('' @ str_int (memory_slots (header e)) @ '')!''))"
      by simp
  next
    assume a: "1 \<le> shots (config q) \<and> experiments q = pre @ e # post \<and>
      (\<forall>x \<in> set pre.
         1 \<le> memory_slots (header x) \<and> \<not> operation_after_measurement (instructions x)) \<and>
      1 \<le> memory_slots (header e) \<and> operation_after_measurement (instructions e)"
    then have "\<not> list_ex invalid_experiment pre" by (simp add: valid_pre)
    with a validate_first_invalid [of q pre e post]
    show "validate q = Inl (QisKitBackendError ''Operation after measurement!'')"
      by simp
  next
    assume "validate q = Inr ()"
    then show "\<exists>calls r. run parser s0 identifier project_id q =
        (Create_project (''qi-sdk-project-'' @ identifier) (shots (config q)) # calls, r)"
      by (simp add: run_def Let_def split: prod.splits)
  next
    show "py_int 10 (str_int n) = Inr n" by (rule str_int_decimal)
  qed
qed

theorem validate_rejects_exactly_witness:
  "validate good_qobj = Inr () \<and> \<not> invalid_qobj good_qobj \<and>
   invalid_qobj bad_qobj \<and>
   validate bad_qobj = Inl (QisKitBackendError ''Operation after measurement!'') \<and>
   run (getattr_call sample_gates) () ''0a1b'' ''17'' bad_qobj =
     ([], Inl (QisKitBackendError ''Operation after measurement!'')) \<and>
   validate no_shots_qobj = Inl (QisKitBackendError ''Invalid shots (number_of_shots=0)'') \<and>
   validate no_clbits_qobj =
     Inl (QisKitBackendError ''Invalid amount of classical bits (0)!'') \<and>
   operation_after_measurement (instructions late_gate_experiment)"
proof -
  have g: "validate good_qobj = Inr ()"
    by code_simp
  have b: "validate bad_qobj = Inl (QisKitBackendError ''Operation after measurement!'')"
    by code_simp
  have n: "shots (config no_shots_qobj) = 0"
    by (simp add: no_shots_qobj_def)
  have z: "str_int 0 = ''0''"
    by code_simp
  have c: "1 \<le> shots (config no_clbits_qobj)"
    "experiments no_clbits_qobj = [entangle_experiment] @ no_clbits_experiment # [late_gate_experiment]"
    "memory_slots (header no_clbits_experiment) = 0"
    by (simp_all add: no_clbits_qobj_def no_clbits_experiment_def)
  have gx: "experiments good_qobj = [entangle_experiment]"
    by (simp add: good_qobj_def)
  from validate_rejects_exactly
    [of good_qobj "getattr_call sample_gates" "()" "''0a1b''" "''17''"
        "[]" entangle_experiment "[]" 0] g gx
  have e: "1 \<le> memory_slots (header entangle_experiment) \<and>
      \<not> operation_after_measurement (instructions entangle_experiment)"
    by simp
  have l: "operation_after_measurement (instructions late_gate_experiment)"
  proof -
    from validate_rejects_exactly
      [of bad_qobj "getattr_call sample_gates" "()" "''0a1b''" "''17''"
          "[]" entangle_experiment "[]" 0] b
    have "invalid_qobj bad_qobj" by simp
    with e show ?thesis
      by (simp add: invalid_qobj_def invalid_experiment_def bad_qobj_def
          late_gate_experiment_def entangle_header_def)
  qed
  from validate_rejects_exactly
    [of good_qobj "getattr_call sample_gates" "()" "''0a1b''" "''17''"
        "[]" entangle_experiment "[]" 0] g
  have 1: "\<not> invalid_qobj good_qobj" by simp
  from validate_rejects_exactly
    [of bad_qobj "getattr_call sample_gates" "()" "''0a1b''" "''17''"
        "[]" entangle_experiment "[]" 0] b
  have 2: "invalid_qobj bad_qobj \<and>
      run (getattr_call sample_gates) () ''0a1b'' ''17'' bad_qobj =
        ([], Inl (QisKitBackendError ''Operation after measurement!''))"
    by simp
  from validate_rejects_exactly
    [of no_shots_qobj "getattr_call sample_gates" "()" "''0a1b''" "''17''"
        "[]" entangle_experiment "[]" 0] n z
  have 3: "validate no_shots_qobj = Inl (QisKitBackendError ''Invalid shots (number_of_shots=0)'')"
    by simp
  from validate_rejects_exactly
    [of no_clbits_qobj "getattr_call sample_gates" "()" "''0a1b''" "''17''"
        "[entangle_experiment]" no_clbits_experiment "[late_gate_experiment]" 0] c e z
  have 4: "validate no_clbits_qobj =
      Inl (QisKitBackendError ''Invalid amount of classical bits (0)!'')"
    by simp
  from g b 1 2 3 4 l show ?thesis by simp
qed

section \<open>The mask decoder\<close>

lemma lowest_set_bit_spec:
  "0 < n \<Longrightarrow> bit n (lowest_set_bit n) \<and> (\<forall>i < lowest_set_bit n. \<not> bit n i)"
proof (induction n rule: lowest_set_bit.induct)
  case (1 n)
  show ?case
  proof (cases "odd n")
    case True
    then have "lowest_set_bit n = 0"
      by (subst lowest_set_bit.simps) simp
    with True show ?thesis by (simp add: bit_0)
  next
    case False
    with "1.prems" have pos: "0 < n div 2" by presburger
    from False "1.prems" have l: "lowest_set_bit n = Suc (lowest_set_bit (n div 2))"
      by (subst lowest_set_bit.simps) simp
    from "1.IH" False "1.prems" pos have ih:
      "bit (n div 2) (lowest_set_bit (n div 2))"
      "\<forall>i < lowest_set_bit (n div 2). \<not> bit (n div 2) i"
      by simp_all
    have "\<not> bit n i" if "i < lowest_set_bit n" for i
    proof (cases i)
      case 0
      with False show ?thesis by (simp add: bit_0)
    next
      case (Suc j)
      with that l ih(2) show ?thesis by (simp add: bit_Suc)
    qed
    with l ih(1) show ?thesis by (simp add: bit_Suc)
  qed
qed

lemma bit_count_spec:
  "0 < n \<Longrightarrow> 0 < bit_count n \<and> bit n (bit_count n - 1) \<and> (\<forall>i. bit n i \<longrightarrow> i < bit_count n)"
proof (induction n rule: bit_count.induct)
  case (1 n)
  from "1.prems" have c: "bit_count n = Suc (bit_count (n div 2))"
    by (subst bit_count.simps) simp
  show ?case
  proof (cases "n div 2 = 0")
    case True
    with "1.prems" have n: "n = 1" by presburger
    have "bit_count (0::nat) = 0" by (subst bit_count.simps) simp
    with c True have "bit_count n = 1" by simp
    moreover have "i = 0" if "bit (1::nat) i" for i
      using that by (simp add: bit_Suc_0_iff)
    ultimately show ?thesis using n by (auto simp add: bit_0)
  next
    case False
    with "1.IH" "1.prems" have ih:
      "0 < bit_count (n div 2)"
      "bit (n div 2) (bit_count (n div 2) - 1)"
      "\<forall>i. bit (n div 2) i \<longrightarrow> i < bit_count (n div 2)"
      by simp_all
    from ih(1) have "bit_count (n div 2) = Suc (bit_count (n div 2) - 1)" by simp
    with ih(2) have top: "bit n (bit_count (n div 2))"
      by (metis bit_Suc)
    have "i < bit_count n" if "bit n i" for i
    proof (cases i)
      case 0
      with c show ?thesis by simp
    next
      case (Suc j)
      with that have "bit (n div 2) j" by (simp add: bit_Suc)
      with ih(3) Suc c show ?thesis by simp
    qed
    with c top show ?thesis by simp
  qed
qed

lemma get_mask_data_spec:
  assumes "0 < m"
  shows "\<exists>lo len. get_mask_data m = (int lo, int len) \<and> 0 < len \<and>
           bit m lo \<and> (\<forall>i < lo. \<not> bit m i) \<and>
           bit m (lo + len - 1) \<and> (\<forall>i. bit m i \<longrightarrow> i < lo + len)"
proof -
  let ?lo = "lowest_set_bit m" and ?n = "bit_count m"
  from lowest_set_bit_spec [OF assms] have lo: "bit m ?lo" "\<forall>i < ?lo. \<not> bit m i"
    by simp_all
  from bit_count_spec [OF assms] have n: "0 < ?n" "bit m (?n - 1)" "\<forall>i. bit m i \<longrightarrow> i < ?n"
    by simp_all
  from lo(1) n(3) have lt: "?lo < ?n" by simp
  then have e: "?lo + (?n - ?lo) = ?n" by simp
  have "get_mask_data m = (int ?lo, int (?n - ?lo))"
    using assms by (simp add: get_mask_data_def)
  moreover from lt have "0 < ?n - ?lo" by simp
  moreover from n(2) e have "bit m (?lo + (?n - ?lo) - 1)" by simp
  moreover from n(3) e have "\<forall>i. bit m i \<longrightarrow> i < ?lo + (?n - ?lo)" by simp
  ultimately show ?thesis using lo by blast
qed

text \<open>
  C2. For a zero mask the decoder returns \<open>(-1, 0)\<close>. For a positive mask it
  returns the position of the lowest set bit and the number of positions from the
  lowest set bit through the highest set bit, whether or not the bits between them
  are set. In particular the masks 1, 56, 255, 510, 128 and 192 give \<open>(0, 1)\<close>,
  \<open>(3, 3)\<close>, \<open>(0, 8)\<close>, \<open>(1, 8)\<close>, \<open>(7, 1)\<close> and \<open>(6, 2)\<close>.
\<close>

theorem get_mask_data_span:
  "get_mask_data 0 = (- 1, 0) \<and>
   (0 < m \<longrightarrow>
      (\<exists>lo len. get_mask_data m = (int lo, int len) \<and> 0 < len \<and>
         bit m lo \<and> (\<forall>i < lo. \<not> bit m i) \<and>
         bit m (lo + len - 1) \<and> (\<forall>i. bit m i \<longrightarrow> i < lo + len))) \<and>
   get_mask_data 1 = (0, 1) \<and> get_mask_data 56 = (3, 3) \<and>
   get_mask_data 255 = (0, 8) \<and> get_mask_data 510 = (1, 8) \<and>
   get_mask_data 128 = (7, 1) \<and> get_mask_data 192 = (6, 2)"
proof -
  have "get_mask_data 0 = (- 1, 0)" "get_mask_data 1 = (0, 1)" "get_mask_data 56 = (3, 3)"
    "get_mask_data 255 = (0, 8)" "get_mask_data 510 = (1, 8)" "get_mask_data 128 = (7, 1)"
    "get_mask_data 192 = (6, 2)"
    by code_simp+
  with get_mask_data_spec [of m] show ?thesis by blast
qed

theorem get_mask_data_span_witness:
  "get_mask_data 40 = (3, 3) \<and>
   (\<exists>lo len. get_mask_data 40 = (int lo, int len) \<and> 0 < len \<and>
      bit (40 :: nat) lo \<and> bit (40 :: nat) (lo + len - 1)) \<and>
   bit (40 :: nat) 3 \<and> \<not> bit (40 :: nat) 4 \<and> bit (40 :: nat) 5"
proof -
  have v: "get_mask_data 40 = (3, 3)"
    by code_simp
  have b: "bit (40 :: nat) 3 \<and> \<not> bit (40 :: nat) 4 \<and> bit (40 :: nat) 5"
    by code_simp
  have p: "(0 :: nat) < 40" by simp
  from get_mask_data_span [of 40] p
  have "\<exists>lo len. get_mask_data 40 = (int lo, int len) \<and> 0 < len \<and>
      bit (40 :: nat) lo \<and> bit (40 :: nat) (lo + len - 1)"
    by blast
  with v b show ?thesis by blast
qed

section \<open>The single-shot fallback\<close>

lemma select_state_first:
  "select_state (prob :: real) s h = Some reg \<Longrightarrow>
   \<exists>pre p post. h = pre @ (reg, p) # post \<and>
     prob < s + sum_list (map snd pre) + p \<and>
     (\<forall>n. 0 < n \<and> n \<le> length pre \<longrightarrow> s + sum_list (map snd (take n pre)) \<le> prob)"
proof (induction h arbitrary: s)
  case Nil
  then show ?case by simp
next
  case (Cons a h)
  obtain reg' p' where a: "a = (reg', p')" by (cases a)
  show ?case
  proof (cases "prob < s + p'")
    case True
    with Cons.prems a have "reg' = reg" by simp
    with True a have "a # h = [] @ (reg, p') # h \<and> prob < s + sum_list (map snd []) + p' \<and>
        (\<forall>n. 0 < n \<and> n \<le> length ([] :: (int \<times> real) list) \<longrightarrow>
           s + sum_list (map snd (take n ([] :: (int \<times> real) list))) \<le> prob)"
      by simp
    then show ?thesis by blast
  next
    case False
    with Cons.prems a have "select_state prob (s + p') h = Some reg" by simp
    from Cons.IH [OF this] obtain pre p post where
      h: "h = pre @ (reg, p) # post" and
      lt: "prob < s + p' + sum_list (map snd pre) + p" and
      ge: "\<forall>n. 0 < n \<and> n \<le> length pre \<longrightarrow> s + p' + sum_list (map snd (take n pre)) \<le> prob"
      by blast
    have "s + sum_list (map snd (take n (a # pre))) \<le> prob"
      if "0 < n \<and> n \<le> length (a # pre)" for n
    proof (cases n)
      case 0
      with that show ?thesis by simp
    next
      case (Suc k)
      show ?thesis
      proof (cases k)
        case 0
        with Suc a False show ?thesis by simp
      next
        case (Suc j)
        with \<open>n = Suc k\<close> that ge a show ?thesis
          by (simp add: add.assoc)
      qed
    qed
    moreover from h have "a # h = (a # pre) @ (reg, p) # post" by simp
    moreover from lt a have "prob < s + sum_list (map snd (a # pre)) + p"
      by (simp add: add.assoc)
    ultimately show ?thesis by blast
  qed
qed

lemma select_state_below_total:
  "s \<le> (prob :: real) \<Longrightarrow> prob < s + sum_list (map snd h) \<Longrightarrow>
   \<exists>reg. select_state prob s h = Some reg"
proof (induction h arbitrary: s)
  case Nil
  then show ?case by simp
next
  case (Cons a h)
  obtain reg' p' where a: "a = (reg', p')" by (cases a)
  show ?case
  proof (cases "prob < s + p'")
    case True
    with a show ?thesis by simp
  next
    case False
    from Cons.prems a have "prob < (s + p') + sum_list (map snd h)"
      by (simp add: add.assoc)
    moreover from False have "s + p' \<le> prob" by simp
    ultimately show ?thesis
      using Cons.IH [of "s + p'"] False a by simp
  qed
qed

lemma sorted_by_hex_single: "sorted_by_hex [(hex v, c)] = Inr [(hex v, c)]"
  by (simp add: sorted_by_hex_def py_int_hex)

text \<open>
  With no raw data and a random number from 0 up to, but not including, the total mass
  of the histogram, the loop stops at the first entry whose running sum exceeds the
  number; the memory data is the one key that entry is projected to, and the count
  histogram holds that key with the count 1.
\<close>

lemma single_shot_sample:
  assumes "histogram r = Some h" and "0 \<le> (prob :: real)" and "prob < sum_list (map snd h)"
  shows "\<exists>pre reg p post. h = pre @ (reg, p) # post \<and>
     prob < sum_list (map snd pre) + p \<and>
     (\<forall>n. 0 < n \<and> n \<le> length pre \<longrightarrow> sum_list (map snd (take n pre)) \<le> prob) \<and>
     convert_result_data from_dict r ms [] prob =
       (case qubit_to_classical_hex reg ms (number_of_qubits r) of
          Inl e \<Rightarrow> Inl e
        | Inr k \<Rightarrow> Inr (from_dict [(k, 1)], [k]))"
proof -
  from assms(3) have "prob < 0 + sum_list (map snd h)" by simp
  from select_state_below_total [OF assms(2) this] obtain reg where
    sel: "select_state prob 0 h = Some reg" ..
  from select_state_first [OF sel] obtain pre p post where
    h: "h = pre @ (reg, p) # post" and
    lt: "prob < sum_list (map snd pre) + p" and
    ge: "\<forall>n. 0 < n \<and> n \<le> length pre \<longrightarrow> sum_list (map snd (take n pre)) \<le> prob"
    by auto
  have "convert_result_data from_dict r ms [] prob =
       (case qubit_to_classical_hex reg ms (number_of_qubits r) of
          Inl e \<Rightarrow> Inl e
        | Inr k \<Rightarrow> Inr (from_dict [(k, 1)], [k]))"
  proof (cases "qubit_to_classical_hex reg ms (number_of_qubits r)")
    case (Inl e)
    with assms(1) sel show ?thesis
      by (simp add: convert_result_data_def histogram_and_memory_def)
  next
    case (Inr k)
    then obtain v where "k = hex v" by (auto dest: qubit_to_classical_hex_is_hex)
    with assms(1) sel Inr show ?thesis
      by (simp add: convert_result_data_def histogram_and_memory_def sorted_by_hex_single)
  qed
  with h lt ge show ?thesis by blast
qed

lemma single_shot_running_sums:
  "histogram_and_memory rounded_result full_map [] (9999995 / 10000000) = Inr ([], [])"
  "histogram_and_memory rounded_result64 full_map [] (float_lit (9999995 / 10000000)) =
     Inr ([], [])"
  by code_simp+

text \<open>
  C1. A random number at or above the total mass of the histogram selects no entry.
  With no raw data and the histogram 0.333333, 0.333333, 0.333333 (the
  probabilities of three equally likely states, rounded to six decimals), the random
  number 0.9999995 is below no running sum: the loop ends without a sample, and both
  the memory data and the count histogram are empty, whatever \<^verbatim>\<open>Obj.from_dict\<close>
  makes of the empty dictionary. This is so in exact arithmetic and in the floats of
  Python.
\<close>

theorem single_shot_without_sample:
  "convert_result_data from_dict rounded_result full_map [] (9999995 / 10000000) =
     Inr (from_dict [], []) \<and>
   convert_result_data from_dict' rounded_result64 full_map [] (float_lit (9999995 / 10000000)) =
     Inr (from_dict' [], [])"
  unfolding convert_result_data_def single_shot_running_sums by simp

end
